theory Spec2Isabelle
  imports Main
begin

section \<open>Strings and the JavaScript operations the handlers use\<close>

text \<open>
  The repository consists of two HTTP handlers written in TypeScript for the Deno
  runtime: the code agent (\<^verbatim>\<open>src/unnamed/part_001\<close>, with a later revision at lines
  114-535 of \<^verbatim>\<open>src/supabase/functions/undo-commit/index.ts\<close>) and the undo handler
  (lines 1-113 of \<^verbatim>\<open>src/supabase/functions/undo-commit/index.ts\<close>), and of the client
  that calls them (\<^verbatim>\<open>src/src/components/ChatInterface.tsx\<close>).

  A JavaScript string is a sequence of UTF-16 code units; it is modelled as the list of
  these code units, each a natural number below 65536. So \<open>length\<close> is
  \<^verbatim>\<open>.length\<close>, \<open>take n\<close> is \<^verbatim>\<open>.slice(0, n)\<close> and \<open>@\<close> is concatenation.
  \<open>js\<close> turns an ASCII literal into such a string.

  An optional value (\<^verbatim>\<open>undefined\<close>, \<^verbatim>\<open>null\<close> or a string) is a
  \<open>jsstring option\<close>; JavaScript treats \<^verbatim>\<open>undefined\<close>, \<^verbatim>\<open>null\<close> and the empty
  string alike as false.
\<close>

type_synonym jsstring = "nat list"

type_synonym path = jsstring

definition js :: "string \<Rightarrow> jsstring" where
  "js s = map of_char s"

lemma js_eq_iff [simp]: "js a = js b \<longleftrightarrow> a = b"
  unfolding js_def by (simp add: inj_map_eq_map inj_on_def)

lemma js_append: "js (a @ b) = js a @ js b"
  by (simp add: js_def)

lemma js_Nil [simp]: "js [] = []"
  by (simp add: js_def)

lemma js_eq_Nil [simp]: "js a = [] \<longleftrightarrow> a = []"
  by (simp add: js_def)

lemma length_js [simp]: "length (js s) = length s"
  by (simp add: js_def)

definition truthy :: "jsstring option \<Rightarrow> bool" where
  "truthy v = (case v of None \<Rightarrow> False | Some s \<Rightarrow> s \<noteq> [])"

text \<open>\<^verbatim>\<open>v || d\<close> with a string default, and \<^verbatim>\<open>v || null\<close>.\<close>

definition or_else :: "jsstring option \<Rightarrow> jsstring \<Rightarrow> jsstring" where
  "or_else v d = (case v of None \<Rightarrow> d | Some s \<Rightarrow> if s = [] then d else s)"

definition or_null :: "jsstring option \<Rightarrow> jsstring option" where
  "or_null v = (case v of None \<Rightarrow> None | Some s \<Rightarrow> if s = [] then None else Some s)"

text \<open>An optional string interpolated into a template string.\<close>

definition interpolated :: "jsstring option \<Rightarrow> jsstring" where
  "interpolated v = (case v of None \<Rightarrow> js ''undefined'' | Some s \<Rightarrow> s)"

text \<open>
  \<^verbatim>\<open>s.trim()\<close> removes from both ends the code units that ECMAScript calls white space
  or line terminators: TAB, LF, VT, FF, CR, SP, NBSP, U+1680, U+2000 to U+200A, U+2028,
  U+2029, U+202F, U+205F, U+3000 and U+FEFF.
\<close>

definition is_space :: "nat \<Rightarrow> bool" where
  "is_space c =
     (c \<in> set [0x09, 0x0A, 0x0B, 0x0C, 0x0D, 0x20, 0xA0, 0x1680, 0x2000, 0x2001, 0x2002,
                0x2003, 0x2004, 0x2005, 0x2006, 0x2007, 0x2008, 0x2009, 0x200A, 0x2028,
                0x2029, 0x202F, 0x205F, 0x3000, 0xFEFF])"

definition trim :: "jsstring \<Rightarrow> jsstring" where
  "trim s = rev (dropWhile is_space (rev (dropWhile is_space s)))"

text \<open>\<^verbatim>\<open>s.startsWith(p)\<close>, \<^verbatim>\<open>s.endsWith(p)\<close> and \<^verbatim>\<open>s.includes(p)\<close> on strings.\<close>

fun startsWith :: "jsstring \<Rightarrow> jsstring \<Rightarrow> bool" where
  "startsWith s [] = True"
| "startsWith [] (p # ps) = False"
| "startsWith (c # cs) (p # ps) = (c = p \<and> startsWith cs ps)"

definition endsWith :: "jsstring \<Rightarrow> jsstring \<Rightarrow> bool" where
  "endsWith s p = startsWith (rev s) (rev p)"

fun includes_str :: "jsstring \<Rightarrow> jsstring \<Rightarrow> bool" where
  "includes_str [] p = (p = [])"
| "includes_str (c # cs) p = (startsWith (c # cs) p \<or> includes_str cs p)"

text \<open>\<^verbatim>\<open>xs.join(sep)\<close> on an array of strings.\<close>

fun join :: "jsstring \<Rightarrow> jsstring list \<Rightarrow> jsstring" where
  "join sep [] = []"
| "join sep [x] = x"
| "join sep (x # y # ys) = x @ sep @ join sep (y # ys)"

text \<open>A number interpolated into a template string (the HTTP status).\<close>

fun show_nat :: "nat \<Rightarrow> jsstring" where
  "show_nat n = (if n < 10 then [48 + n] else show_nat (n div 10) @ [48 + n mod 10])"

declare show_nat.simps [simp del]

text \<open>
  A string is well formed when it has no lone surrogate: every code unit from 0xD800 to
  0xDBFF is followed by one from 0xDC00 to 0xDFFF, and the latter occur nowhere else.
  \<^verbatim>\<open>encodeURIComponent\<close> throws a \<^verbatim>\<open>URIError\<close> with the message
  \<^verbatim>\<open>URI malformed\<close> on any other string.
\<close>

fun well_formed :: "jsstring \<Rightarrow> bool" where
  "well_formed [] = True"
| "well_formed [c] = (c < 0xD800 \<or> 0xDFFF < c)"
| "well_formed (c # d # cs) =
     (if 0xD800 \<le> c \<and> c \<le> 0xDBFF then 0xDC00 \<le> d \<and> d \<le> 0xDFFF \<and> well_formed cs
      else if 0xDC00 \<le> c \<and> c \<le> 0xDFFF then False
      else well_formed (d # cs))"

definition uri_malformed :: jsstring where
  "uri_malformed = js ''URI malformed''"

text \<open>
  \<^verbatim>\<open>s.replace(/PAT\n?/g, "")\<close> for a literal pattern \<open>PAT\<close>: scanning from the left,
  every occurrence of the pattern, with one line feed after it when there is one, is
  removed. The handlers use it with the patterns \<^verbatim>\<open>```json\<close> and \<^verbatim>\<open>```\<close>.
\<close>

fun after_prefix :: "jsstring \<Rightarrow> jsstring \<Rightarrow> jsstring option" where
  "after_prefix [] s = Some s"
| "after_prefix (p # ps) [] = None"
| "after_prefix (p # ps) (c # cs) = (if p = c then after_prefix ps cs else None)"

definition drop_line_feed :: "jsstring \<Rightarrow> jsstring" where
  "drop_line_feed s = (case s of [] \<Rightarrow> [] | c # cs \<Rightarrow> if c = 0x0A then cs else c # cs)"

lemma length_drop_line_feed: "length (drop_line_feed s) \<le> length s"
  by (simp add: drop_line_feed_def split: list.splits)

function delete_all :: "jsstring \<Rightarrow> jsstring \<Rightarrow> jsstring" where
  "delete_all p [] = []"
| "delete_all p (c # cs) =
     (case after_prefix p (c # cs) of
        None \<Rightarrow> c # delete_all p cs
      | Some r \<Rightarrow>
          if length r < length (c # cs) then delete_all p (drop_line_feed r)
          else c # delete_all p cs)"
  by pat_completeness auto
termination
proof (relation "measure (\<lambda>(p, s). length s)", goal_cases)
  case 1
  show ?case by simp
next
  case (2 p c cs)
  show ?case by simp
next
  case (3 p c cs r)
  have "length (drop_line_feed r) \<le> length r" by (rule length_drop_line_feed)
  with 3 show ?case by simp
next
  case (4 p c cs r)
  show ?case by simp
qed

definition fence :: jsstring where
  "fence = [0x60, 0x60, 0x60]"

text \<open>
  \<^verbatim>\<open>raw.replace(/```json\n?/g, "").replace(/```\n?/g, "").trim()\<close>
  (part_001 lines 215 and 305).
\<close>

definition strip_code_fences :: "jsstring \<Rightarrow> jsstring" where
  "strip_code_fences raw = trim (delete_all fence (delete_all (fence @ js ''json'') raw))"

section \<open>The outside world: requests, responses and the trace of effects\<close>

text \<open>
  Every handler talks to two remote services through \<^verbatim>\<open>fetch\<close>: the GitHub REST API
  (the content gateway) and a chat-completion endpoint (the generation backend). A run
  of a handler is modelled by explicit state passing: the state is the trace, the list of
  effects performed so far in the order in which the handler starts them. The world
  answers a request with an outcome that may depend on the whole trace before it, so a
  write can change what a later read returns.

  The outcome of \<^verbatim>\<open>fetch\<close> is either a rejection (the promise rejects with an
  \<^verbatim>\<open>Error\<close>, of which the message is kept) or a response with a status and a body.
  The URL and the headers of a request are kept in structured form: the repository
  (owner, name and bearer token), the resource and, for a write, the JSON body.
\<close>

record repo =
  repo_owner :: jsstring
  repo_name :: jsstring
  github_token :: jsstring

datatype resource =
    Repository
  | Tree jsstring
  | Contents path "jsstring option"
  | Commit jsstring

record put_body =
  put_message :: jsstring
  put_content :: jsstring
  put_sha :: "jsstring option"
  put_branch :: "jsstring option"

record delete_body =
  del_message :: jsstring
  del_sha :: "jsstring option"

text \<open>
  The message list of a chat-completion request. The fixed wording of each instruction
  is not modelled; a constructor names the instruction and carries every value the
  handler interpolates into it, followed by the history and the user's message where the
  handler appends them.
\<close>

type_synonym history = "(jsstring \<times> jsstring) list"

datatype prompt =
    IntentPrompt jsstring
  | ChatPrompt jsstring jsstring history jsstring
  | SelectionPrompt "path list" jsstring
  | CodePrompt jsstring jsstring jsstring jsstring "path list" jsstring "path list" history jsstring

record ai_call =
  ai_url :: jsstring
  ai_key :: jsstring
  ai_model :: jsstring
  ai_messages :: prompt
  ai_temperature :: nat
  ai_max_tokens :: "nat option"

text \<open>
  \<open>ai_temperature\<close> is the temperature in hundredths. \<open>Sleep ms\<close> is
  \<^verbatim>\<open>await new Promise(r => setTimeout(r, ms))\<close>.
\<close>

datatype effect =
    Get repo resource
  | Put repo path put_body
  | Delete repo path delete_body
  | Post ai_call
  | Sleep nat

record tree_entry =
  entry_path :: path
  entry_type :: jsstring

record file_data =
  fd_encoding :: "jsstring option"
  fd_content :: "jsstring option"
  fd_sha :: "jsstring option"
  fd_path :: "jsstring option"

record changed_file =
  cf_filename :: path
  cf_status :: jsstring

record commit_data =
  cd_parents :: "jsstring option list"
  cd_files :: "changed_file list"

text \<open>
  The JSON body of a response, by the fields the handlers read:
  \<^item> \<open>RepoBody b\<close>: \<^verbatim>\<open>data.default_branch\<close>;
  \<^item> \<open>TreeBody t\<close>: \<^verbatim>\<open>tree.tree\<close>, the entries with their \<^verbatim>\<open>path\<close> and \<^verbatim>\<open>type\<close>;
  \<^item> \<open>FileBody d\<close>: \<^verbatim>\<open>encoding\<close>, \<^verbatim>\<open>content\<close>, \<^verbatim>\<open>sha\<close>, \<^verbatim>\<open>path\<close> of a file,
    each present or missing;
  \<^item> \<open>PutBody s\<close>: \<^verbatim>\<open>result.commit?.sha\<close> of a write;
  \<^item> \<open>CommitBody c\<close>: the \<^verbatim>\<open>sha\<close> of each entry of \<^verbatim>\<open>parents\<close> (a missing array is
    the empty list) and \<^verbatim>\<open>files\<close> (\<^verbatim>\<open>commitData.files || []\<close>);
  \<^item> \<open>ChatBody c\<close>: \<^verbatim>\<open>choices?.[0]?.message?.content\<close>;
  \<^item> \<open>OtherBody\<close>: any other JSON object or array.
  A field read from a body of another shape is \<^verbatim>\<open>undefined\<close>. The body of a response
  is taken to be JSON other than \<^verbatim>\<open>null\<close>, with fields of the types the handlers
  expect where they are present.
\<close>

datatype body =
    RepoBody "jsstring option"
  | TreeBody "tree_entry list option"
  | FileBody file_data
  | PutBody "jsstring option"
  | CommitBody commit_data
  | ChatBody "jsstring option"
  | OtherBody

record http_response =
  status :: nat
  body :: body

definition ok :: "http_response \<Rightarrow> bool" where
  "ok res = (200 \<le> status res \<and> status res \<le> 299)"

datatype outcome =
    Rejected jsstring
  | Answered http_response

record change =
  ch_path :: "jsstring option"
  ch_action :: "jsstring option"
  ch_content :: "jsstring option"

record parsed =
  explanation :: "jsstring option"
  changes :: "change list option"
  p_commit_message :: "jsstring option"

text \<open>
  The world of one run. \<open>respond\<close> gives the outcome of a request started after a
  trace. \<open>arrival\<close> gives the time at which the handler has that outcome in hand (the
  response and, where the handler reads it, its body); the handlers depend on it only
  where requests run in parallel. The remaining fields are what the handlers take from
  the runtime:
  \<^item> \<open>lovable_api_key\<close>: \<^verbatim>\<open>Deno.env.get("LOVABLE_API_KEY")\<close>;
  \<^item> \<open>toLowerCase\<close>: \<^verbatim>\<open>String.prototype.toLowerCase\<close>, the case mapping of Unicode;
  \<^item> \<open>atob_utf8\<close>: the decoding of a fetched file,
    \<^verbatim>\<open>decodeURIComponent(escape(atob(c)))\<close> with \<^verbatim>\<open>atob(c)\<close> when the former
    throws; \<open>Inl m\<close> when \<^verbatim>\<open>atob(c)\<close> itself throws an error with message \<open>m\<close>;
  \<^item> \<open>btoa_utf8\<close>: \<^verbatim>\<open>btoa(unescape(encodeURIComponent(content)))\<close> on a well-formed
    string;
  \<^item> \<open>parse_paths\<close>: \<^verbatim>\<open>JSON.parse\<close> where the handler expects an array of paths
    (\<^verbatim>\<open>selectedFiles: string[]\<close>), \<open>None\<close> when it throws;
  \<^item> \<open>parse_changes\<close>: \<^verbatim>\<open>JSON.parse\<close> where the handler expects the change set
    \<^verbatim>\<open>{explanation, changes: [{path, action, content}], commit_message}\<close>, \<open>None\<close> when it
    throws.
\<close>

record world =
  respond :: "effect list \<Rightarrow> effect \<Rightarrow> outcome"
  arrival :: "effect list \<Rightarrow> effect \<Rightarrow> nat"
  lovable_api_key :: "jsstring option"
  toLowerCase :: "jsstring \<Rightarrow> jsstring"
  atob_utf8 :: "jsstring \<Rightarrow> jsstring + jsstring"
  btoa_utf8 :: "jsstring \<Rightarrow> jsstring"
  parse_paths :: "jsstring \<Rightarrow> path list option"
  parse_changes :: "jsstring \<Rightarrow> parsed option"

definition fetch :: "world \<Rightarrow> effect list \<Rightarrow> effect \<Rightarrow> outcome \<times> effect list" where
  "fetch w tr e = (respond w tr e, tr @ [e])"

definition chat_content :: "http_response \<Rightarrow> jsstring option" where
  "chat_content res = (case body res of ChatBody c \<Rightarrow> c | _ \<Rightarrow> None)"

section \<open>The content gateway (part_001 lines 9-70)\<close>

text \<open>
  A function that can throw returns \<open>Inl m\<close>, with \<open>m\<close> the message of the error, or
  \<open>Inr\<close> with its result.
\<close>

definition getDefaultBranch ::
  "world \<Rightarrow> effect list \<Rightarrow> repo \<Rightarrow> (jsstring + jsstring) \<times> effect list" where
  "getDefaultBranch w tr r =
     (case fetch w tr (Get r Repository) of
        (Rejected m, tr1) \<Rightarrow> (Inl m, tr1)
      | (Answered res, tr1) \<Rightarrow>
          if \<not> ok res then
            (Inl (js ''N'' @ [0xE3] @ js ''o consegui acessar o reposit'' @ [0xF3]
                  @ js ''rio. Verifique se o token '' @ [0xE9] @ js '' v'' @ [0xE1]
                  @ js ''lido.''), tr1)
          else
            (Inr (or_else (case body res of RepoBody b \<Rightarrow> b | _ \<Rightarrow> None) (js ''main'')), tr1))"

definition getRepoTree ::
  "world \<Rightarrow> effect list \<Rightarrow> repo \<Rightarrow> jsstring \<Rightarrow> (jsstring + body) \<times> effect list" where
  "getRepoTree w tr r branch =
     (case fetch w tr (Get r (Tree branch)) of
        (Rejected m, tr1) \<Rightarrow> (Inl m, tr1)
      | (Answered res, tr1) \<Rightarrow>
          if \<not> ok res then
            (Inl (js ''N'' @ [0xE3] @ js ''o consegui ler a '' @ [0xE1]
                  @ js ''rvore do reposit'' @ [0xF3] @ js ''rio na branch '' @ branch), tr1)
          else (Inr (body res), tr1))"

record loaded_file =
  lf_content :: jsstring
  lf_sha :: "jsstring option"
  lf_path :: "jsstring option"

text \<open>
  Lines 26-41. The URL is built with \<^verbatim>\<open>encodeURIComponent(path)\<close>, which throws
  before the request starts when the path is not well formed. When the answer says
  \<^verbatim>\<open>base64\<close> and has no \<^verbatim>\<open>content\<close>, \<^verbatim>\<open>data.content.replace\<close> throws a
  \<^verbatim>\<open>TypeError\<close> in the \<^verbatim>\<open>try\<close> block and again in the \<^verbatim>\<open>catch\<close> block; when
  \<^verbatim>\<open>atob\<close> throws, it throws again in the \<^verbatim>\<open>catch\<close> block.
\<close>

definition getFileContent ::
  "world \<Rightarrow> effect list \<Rightarrow> repo \<Rightarrow> path \<Rightarrow> (jsstring + loaded_file option) \<times> effect list" where
  "getFileContent w tr r p =
     (if \<not> well_formed p then (Inl uri_malformed, tr)
      else
        (case fetch w tr (Get r (Contents p None)) of
           (Rejected m, tr1) \<Rightarrow> (Inl m, tr1)
         | (Answered res, tr1) \<Rightarrow>
             if \<not> ok res then (Inr None, tr1)
             else
               (case body res of
                  FileBody d \<Rightarrow>
                    if fd_encoding d = Some (js ''base64'') then
                      (case fd_content d of
                         None \<Rightarrow>
                           (Inl (js ''Cannot read properties of undefined (reading '' @ [0x27]
                                 @ js ''replace'' @ [0x27] @ js '')''), tr1)
                       | Some c \<Rightarrow>
                           (case atob_utf8 w (filter (\<lambda>u. u \<noteq> 0x0A) c) of
                              Inl m \<Rightarrow> (Inl m, tr1)
                            | Inr decoded \<Rightarrow>
                                (Inr (Some \<lparr>lf_content = decoded, lf_sha = fd_sha d,
                                            lf_path = fd_path d\<rparr>), tr1)))
                    else (Inr None, tr1)
                | _ \<Rightarrow> (Inr None, tr1))))"

text \<open>
  Lines 43-70. \<^verbatim>\<open>encodeURIComponent(content)\<close> and then \<^verbatim>\<open>encodeURIComponent(path)\<close>
  are evaluated before the request starts.
\<close>

definition commitFile ::
  "world \<Rightarrow> effect list \<Rightarrow> repo \<Rightarrow> path \<Rightarrow> jsstring \<Rightarrow> jsstring option \<Rightarrow> jsstring \<Rightarrow> jsstring
     \<Rightarrow> (jsstring + body) \<times> effect list" where
  "commitFile w tr r p content sha message branch =
     (if \<not> well_formed content \<or> \<not> well_formed p then (Inl uri_malformed, tr)
      else
        (case fetch w tr (Put r p
                \<lparr>put_message = message, put_content = btoa_utf8 w content,
                 put_sha = (if truthy sha then sha else None), put_branch = Some branch\<rparr>) of
           (Rejected m, tr1) \<Rightarrow> (Inl m, tr1)
         | (Answered res, tr1) \<Rightarrow>
             if \<not> ok res then
               (Inl (js ''Falha ao salvar '' @ p @ js '' no GitHub (status ''
                     @ show_nat (status res) @ js '')''), tr1)
             else (Inr (body res), tr1)))"

text \<open>Detect the kind of project (part_001 lines 72-86).\<close>

definition detectProjectType :: "path list \<Rightarrow> jsstring" where
  "detectProjectType files =
     (let hasPackageJson = (js ''package.json'' \<in> set files);
          hasViteConfig = list_ex (\<lambda>f. includes_str f (js ''vite.config'')) files;
          hasSrcFolder = list_ex (\<lambda>f. startsWith f (js ''src/'')) files;
          hasIndexHtml = (js ''index.html'' \<in> set files);
          hasNextConfig = list_ex (\<lambda>f. includes_str f (js ''next.config'')) files
      in if hasNextConfig then js ''nextjs''
         else if hasViteConfig \<and> hasSrcFolder then js ''vite-react''
         else if hasPackageJson \<and> hasSrcFolder then js ''react''
         else if hasIndexHtml then js ''static-html''
         else js ''generic'')"

section \<open>The code agent (part_001 lines 88-412)\<close>

record agent_request =
  req_method :: jsstring
  req_message :: jsstring
  req_repo :: repo
  req_history :: history

record reply_body =
  response :: jsstring
  files_changed :: "path list"
  commit_sha :: "jsstring option"
  commit_message :: "jsstring option"

text \<open>
  What a handler returns: the answer to an \<^verbatim>\<open>OPTIONS\<close> request, a JSON object with
  the four fields of \<open>reply_body\<close>, or \<^verbatim>\<open>{error: msg}\<close> with an HTTP status.
\<close>

datatype reply =
    Preflight
  | Reply reply_body
  | Failure nat jsstring

text \<open>
  An \<^verbatim>\<open>Error\<close> thrown inside the handler's \<^verbatim>\<open>try\<close> block reaches the
  \<^verbatim>\<open>catch\<close> at lines 404-411.
\<close>

definition thrown :: "jsstring \<Rightarrow> reply" where
  "thrown msg = Failure 500 (js ''Erro: '' @ msg)"

definition gateway_url :: jsstring where
  "gateway_url = js ''https://ai.gateway.lovable.dev/v1/chat/completions''"

definition criticalFiles :: "path list" where
  "criticalFiles = [js ''package.json'', js ''index.html'', js ''tsconfig.json'',
     js ''vite.config.ts'', js ''vite.config.js'', js ''tailwind.config.ts'',
     js ''tailwind.config.js'']"

definition codeExts :: "jsstring list" where
  "codeExts = [js ''.html'', js ''.css'', js ''.js'', js ''.jsx'', js ''.ts'', js ''.tsx'',
     js ''.json'', js ''.py'', js ''.vue'', js ''.svelte'', js ''.scss'']"

definition no_changes :: reply_body where
  "no_changes = \<lparr>response = [], files_changed = [], commit_sha = None, commit_message = None\<rparr>"

subsection \<open>Chat mode (lines 125-175)\<close>

text \<open>The request of lines 127-158.\<close>

definition chat_call :: "jsstring \<Rightarrow> agent_request \<Rightarrow> effect" where
  "chat_call key rq =
     Post \<lparr>ai_url = gateway_url, ai_key = key, ai_model = js ''google/gemini-3-flash-preview'',
           ai_messages = ChatPrompt (repo_owner (req_repo rq)) (repo_name (req_repo rq))
                           (req_history rq) (req_message rq),
           ai_temperature = 70, ai_max_tokens = None\<rparr>"

definition chat_mode ::
  "world \<Rightarrow> effect list \<Rightarrow> jsstring \<Rightarrow> agent_request \<Rightarrow> reply \<times> effect list" where
  "chat_mode w tr key rq =
     (case fetch w tr (chat_call key rq) of
        (Rejected m, tr1) \<Rightarrow> (thrown m, tr1)
      | (Answered chatRes, tr1) \<Rightarrow>
          if \<not> ok chatRes then
            (if status chatRes = 429 then
               (Failure 429 (js ''Muitas requisi'' @ [0xE7, 0xF5]
                  @ js ''es, espera um pouquinho! '' @ [0xD83D, 0xDE05]), tr1)
             else if status chatRes = 402 then
               (Failure 402 (js ''Cr'' @ [0xE9] @ js ''ditos esgotados '' @ [0xD83D, 0xDE22]), tr1)
             else (thrown (js ''Erro na IA''), tr1))
          else
            (Reply (no_changes\<lparr>response := or_else (chat_content chatRes)
               (js ''Desculpa, n'' @ [0xE3] @ js ''o entendi. Pode repetir?'')\<rparr>), tr1))"

subsection \<open>Selecting and loading files (lines 180-240)\<close>

definition blob_paths :: "body \<Rightarrow> path list" where
  "blob_paths tree =
     (case tree of
        TreeBody (Some es) \<Rightarrow> map entry_path (filter (\<lambda>f. entry_type f = js ''blob'') es)
      | _ \<Rightarrow> [])"

definition fallback_selection :: "path list \<Rightarrow> path list" where
  "fallback_selection allFiles =
     take 12 (filter (\<lambda>f. list_ex (\<lambda>ext. endsWith f ext) codeExts) allFiles)"

text \<open>
  Lines 211-225. \<open>answered\<close> is \<^verbatim>\<open>selectedFiles\<close> after line 217: the parsed array, or
  the initial empty array when the call failed or \<^verbatim>\<open>JSON.parse\<close> threw.
\<close>

definition selection_answer :: "world \<Rightarrow> http_response \<Rightarrow> path list" where
  "selection_answer w selectionRes =
     (if ok selectionRes then
        (case parse_paths w (strip_code_fences (or_else (chat_content selectionRes) (js ''[]''))) of
           None \<Rightarrow> []
         | Some paths \<Rightarrow> paths)
      else [])"

definition select_files :: "world \<Rightarrow> path list \<Rightarrow> http_response \<Rightarrow> path list" where
  "select_files w allFiles selectionRes =
     (let answered = selection_answer w selectionRes;
          selectedFiles = (if length answered = 0 then fallback_selection allFiles else answered)
      in filter (\<lambda>f. f \<in> set allFiles) selectedFiles)"

text \<open>
  Lines 229-236. \<^verbatim>\<open>selectedFiles.map\<close> starts the load of every path, in the order of
  \<^verbatim>\<open>selectedFiles\<close>; \<^verbatim>\<open>Promise.all\<close> then waits for all of them. Each load settles
  when the outcome of its request arrives, a load whose path is not well formed at once
  (time 0, before any outcome). \<open>loadPromises\<close> gives for each load the time at which it
  settles and what it settles to.
\<close>

fun loadPromises ::
  "world \<Rightarrow> effect list \<Rightarrow> repo \<Rightarrow> path list
     \<Rightarrow> (nat \<times> (jsstring + loaded_file option)) list \<times> effect list" where
  "loadPromises w tr r [] = ([], tr)"
| "loadPromises w tr r (fp # fps) =
     (case getFileContent w tr r fp of
        (settled, tr1) \<Rightarrow>
          (case loadPromises w tr1 r fps of
             (rest, tr2) \<Rightarrow>
               ((if well_formed fp then Suc (arrival w tr (Get r (Contents fp None))) else 0,
                 settled) # rest, tr2)))"

text \<open>
  The loads in the order in which they settle (loads settling at the same time in the
  order of their start): a fulfilled load pushes its file to \<^verbatim>\<open>fileContents\<close> when
  there is one and its content is shorter than 20000 (line 232); the first load that
  rejects makes \<^verbatim>\<open>Promise.all\<close> reject, and the \<^verbatim>\<open>await\<close> at line 236 throws.
\<close>

fun settle :: "(jsstring + loaded_file option) list \<Rightarrow> jsstring + loaded_file list" where
  "settle [] = Inr []"
| "settle (Inl m # rest) = Inl m"
| "settle (Inr None # rest) = settle rest"
| "settle (Inr (Some f) # rest) =
     (case settle rest of
        Inl m \<Rightarrow> Inl m
      | Inr fs \<Rightarrow> Inr (if length (lf_content f) < 20000 then f # fs else fs))"

definition load_files ::
  "world \<Rightarrow> effect list \<Rightarrow> repo \<Rightarrow> path list \<Rightarrow> (jsstring + loaded_file list) \<times> effect list" where
  "load_files w tr r selectedFiles =
     (case loadPromises w tr r selectedFiles of
        (loads, tr1) \<Rightarrow> (settle (map snd (sort_key fst loads)), tr1))"

text \<open>Line 240.\<close>

definition file_context :: "loaded_file list \<Rightarrow> jsstring" where
  "file_context fileContents =
     join [0x0A, 0x0A]
       (map (\<lambda>f. js ''=== '' @ interpolated (lf_path f) @ js '' ==='' @ [0x0A] @ lf_content f)
            fileContents)"

subsection \<open>From the request to the parsed change set (lines 92-320)\<close>

definition selection_call :: "jsstring \<Rightarrow> path list \<Rightarrow> agent_request \<Rightarrow> effect" where
  "selection_call key allFiles rq =
     Post \<lparr>ai_url = gateway_url, ai_key = key, ai_model = js ''google/gemini-2.5-flash'',
           ai_messages = SelectionPrompt allFiles (req_message rq),
           ai_temperature = 10, ai_max_tokens = None\<rparr>"

definition code_call ::
  "jsstring \<Rightarrow> jsstring \<Rightarrow> path list \<Rightarrow> jsstring \<Rightarrow> agent_request \<Rightarrow> effect" where
  "code_call key branch allFiles fileContext rq =
     Post \<lparr>ai_url = gateway_url, ai_key = key, ai_model = js ''google/gemini-2.5-flash'',
           ai_messages = CodePrompt (repo_owner (req_repo rq)) (repo_name (req_repo rq)) branch
              (detectProjectType allFiles) allFiles fileContext criticalFiles
              (req_history rq) (req_message rq),
           ai_temperature = 15, ai_max_tokens = None\<rparr>"

text \<open>Lines 297-320: from the answer of the generator to the parsed change set.\<close>

definition read_changes :: "world \<Rightarrow> http_response \<Rightarrow> reply + parsed" where
  "read_changes w codeRes =
     (if \<not> ok codeRes then
        (if status codeRes = 429 then
           Inl (Failure 429 (js ''Muitas requisi'' @ [0xE7, 0xF5]
                  @ js ''es, espera um pouquinho!''))
         else if status codeRes = 402 then
           Inl (Failure 402 (js ''Cr'' @ [0xE9] @ js ''ditos esgotados.''))
         else Inl (thrown (js ''Erro na IA ao gerar mudan'' @ [0xE7] @ js ''as'')))
      else
        (case parse_changes w (strip_code_fences (or_else (chat_content codeRes) [])) of
           None \<Rightarrow>
             Inl (Reply (no_changes\<lparr>response :=
               js ''Desculpa, tive um problema ao processar. Tenta de novo com mais detalhes? ''
               @ [0xD83D, 0xDE05]\<rparr>))
         | Some parsed \<Rightarrow> Inr parsed))"

definition code_mode ::
  "world \<Rightarrow> effect list \<Rightarrow> jsstring \<Rightarrow> agent_request
     \<Rightarrow> (reply + jsstring \<times> parsed) \<times> effect list" where
  "code_mode w tr key rq =
     (case getDefaultBranch w tr (req_repo rq) of
        (Inl m, tr1) \<Rightarrow> (Inl (thrown m), tr1)
      | (Inr branch, tr1) \<Rightarrow>
          (case getRepoTree w tr1 (req_repo rq) branch of
             (Inl m, tr2) \<Rightarrow> (Inl (thrown m), tr2)
           | (Inr tree, tr2) \<Rightarrow>
               (case fetch w tr2 (selection_call key (blob_paths tree) rq) of
                  (Rejected m, tr3) \<Rightarrow> (Inl (thrown m), tr3)
                | (Answered selectionRes, tr3) \<Rightarrow>
                    (case load_files w tr3 (req_repo rq)
                            (select_files w (blob_paths tree) selectionRes) of
                       (Inl m, tr4) \<Rightarrow> (Inl (thrown m), tr4)
                     | (Inr fileContents, tr4) \<Rightarrow>
                         (case fetch w tr4 (code_call key branch (blob_paths tree)
                                              (file_context fileContents) rq) of
                            (Rejected m, tr5) \<Rightarrow> (Inl (thrown m), tr5)
                          | (Answered codeRes, tr5) \<Rightarrow>
                              (case read_changes w codeRes of
                                 Inl rp \<Rightarrow> (Inl rp, tr5)
                               | Inr parsed \<Rightarrow> (Inr (branch, parsed), tr5)))))))"

text \<open>
  Lines 92-175 and the call of code mode: the result is either the handler's reply (an
  early \<^verbatim>\<open>return\<close> or a thrown error) or the branch and the parsed change set with
  which the handler goes on at line 322.
\<close>

definition intent_call :: "jsstring \<Rightarrow> agent_request \<Rightarrow> effect" where
  "intent_call key rq =
     Post \<lparr>ai_url = gateway_url, ai_key = key, ai_model = js ''google/gemini-2.5-flash-lite'',
           ai_messages = IntentPrompt (req_message rq),
           ai_temperature = 0, ai_max_tokens = Some 10\<rparr>"

definition plan_changes ::
  "world \<Rightarrow> agent_request \<Rightarrow> (reply + jsstring \<times> parsed) \<times> effect list" where
  "plan_changes w rq =
     (if \<not> truthy (lovable_api_key w) then
        (Inl (thrown (js ''LOVABLE_API_KEY not configured'')), [])
      else
        (case fetch w [] (intent_call (or_else (lovable_api_key w) []) rq) of
           (Rejected m, tr1) \<Rightarrow> (Inl (thrown m), tr1)
         | (Answered intentRes, tr1) \<Rightarrow>
             if \<not> ok intentRes then (Inl (thrown (js ''Erro ao processar sua mensagem'')), tr1)
             else if toLowerCase w (trim (or_else (chat_content intentRes) [])) \<noteq> js ''code'' then
               (case chat_mode w tr1 (or_else (lovable_api_key w) []) rq of
                  (rp, tr2) \<Rightarrow> (Inl rp, tr2))
             else code_mode w tr1 (or_else (lovable_api_key w) []) rq))"

subsection \<open>Validation, safety check and commits (lines 322-402)\<close>

text \<open>
  Lines 333-342: the path of the first change that touches a critical file with content
  that is missing or shorter than 10 after trimming.
\<close>

definition empties :: "jsstring option \<Rightarrow> bool" where
  "empties content =
     (case content of None \<Rightarrow> True | Some s \<Rightarrow> s = [] \<or> length (trim s) < 10)"

fun safety_check :: "change list \<Rightarrow> path option" where
  "safety_check [] = None"
| "safety_check (c # cs) =
     (case ch_path c of
        None \<Rightarrow> safety_check cs
      | Some p \<Rightarrow>
          if p \<in> set criticalFiles \<and> empties (ch_content c) then Some p
          else safety_check cs)"

record commit_state =
  cs_trace :: "effect list"
  lastCommitSha :: "jsstring option"
  filesChanged :: "path list"
  errors :: "jsstring list"

text \<open>
  One iteration of the loop at lines 349-375. An error thrown by \<^verbatim>\<open>getFileContent\<close>
  or by \<^verbatim>\<open>commitFile\<close> is caught at line 370.
\<close>

definition commit_step ::
  "world \<Rightarrow> repo \<Rightarrow> jsstring \<Rightarrow> jsstring \<Rightarrow> commit_state \<Rightarrow> change \<Rightarrow> commit_state" where
  "commit_step w r branch msg st c =
     (if \<not> truthy (ch_path c) \<or> \<not> truthy (ch_content c) then st
      else
        (case getFileContent w (cs_trace st) r (or_else (ch_path c) []) of
           (Inl errMsg, tr1) \<Rightarrow>
             st\<lparr>cs_trace := tr1,
                errors := errors st @ [or_else (ch_path c) [] @ js '': '' @ errMsg]\<rparr>
         | (Inr freshFile, tr1) \<Rightarrow>
             (case commitFile w tr1 r (or_else (ch_path c) []) (or_else (ch_content c) [])
                     (case freshFile of None \<Rightarrow> None | Some f \<Rightarrow> or_null (lf_sha f))
                     msg branch of
                (Inl errMsg, tr2) \<Rightarrow>
                  st\<lparr>cs_trace := tr2,
                     errors := errors st @ [or_else (ch_path c) [] @ js '': '' @ errMsg]\<rparr>
              | (Inr result, tr2) \<Rightarrow>
                  st\<lparr>cs_trace := tr2,
                     lastCommitSha := or_null (case result of PutBody s \<Rightarrow> s | _ \<Rightarrow> None),
                     filesChanged := filesChanged st @ [or_else (ch_path c) []]\<rparr>)))"

definition apply_changes ::
  "world \<Rightarrow> repo \<Rightarrow> jsstring \<Rightarrow> jsstring \<Rightarrow> commit_state \<Rightarrow> change list \<Rightarrow> commit_state" where
  "apply_changes w r branch msg st cs = foldl (commit_step w r branch msg) st cs"

text \<open>Lines 378-395.\<close>

definition build_response :: "parsed \<Rightarrow> commit_state \<Rightarrow> jsstring" where
  "build_response parsed st =
     (let response1 =
            (if length (filesChanged st) > 0 then
               or_else (explanation parsed)
                  (js ''Pronto, modifica'' @ [0xE7, 0xF5] @ js ''es aplicadas!'')
               @ [0x0A, 0x0A, 0x2705] @ js '' Arquivos atualizados: ''
               @ join (js '', '') (filesChanged st)
               @ (if truthy (lastCommitSha st) then
                    [0x0A, 0xD83D, 0xDD17] @ js '' Commit: '' @ [0x60]
                    @ take 7 (or_else (lastCommitSha st) []) @ [0x60]
                  else [])
             else []);
          response2 =
            (if length (errors st) > 0 then
               (if length (filesChanged st) = 0 then
                  [0x274C] @ js '' N'' @ [0xE3] @ js ''o consegui fazer as modifica''
                  @ [0xE7, 0xF5] @ js ''es.'' @ [0x0A, 0x0A]
                  @ join [0x0A] (map (\<lambda>e. [0x2022] @ js '' '' @ e) (errors st))
                  @ [0x0A, 0x0A] @ js ''Verifica se o token tem a permiss'' @ [0xE3]
                  @ js ''o '' @ [0x22] @ js ''repo'' @ [0x22] @ js '' habilitada.''
                else
                  response1 @ [0x0A, 0x0A, 0x26A0, 0xFE0F] @ js '' Alguns arquivos falharam:''
                  @ [0x0A] @ join [0x0A] (map (\<lambda>e. [0x2022] @ js '' '' @ e) (errors st)))
             else response1)
      in if response2 = [] then
           js ''Algo deu errado, n'' @ [0xE3] @ js ''o consegui processar. Tenta de novo?''
         else response2)"

definition review_and_commit ::
  "world \<Rightarrow> effect list \<Rightarrow> repo \<Rightarrow> jsstring \<Rightarrow> parsed \<Rightarrow> reply \<times> effect list" where
  "review_and_commit w tr r branch parsed =
     (if (case changes parsed of None \<Rightarrow> True | Some cs \<Rightarrow> length cs = 0) then
        (Reply (no_changes\<lparr>response := or_else (explanation parsed)
           (js ''N'' @ [0xE3] @ js ''o identifiquei nenhuma mudan'' @ [0xE7]
            @ js ''a necess'' @ [0xE1]
            @ js ''ria. Pode detalhar melhor o que quer?'')\<rparr>), tr)
      else
        (case safety_check (case changes parsed of None \<Rightarrow> [] | Some cs \<Rightarrow> cs) of
           Some p \<Rightarrow>
             (Reply (no_changes\<lparr>response :=
                [0x26A0, 0xFE0F] @ js '' N'' @ [0xE3] @ js ''o posso modificar '' @ p
                @ js '' dessa forma - '' @ [0xE9] @ js '' um arquivo cr'' @ [0xED]
                @ js ''tico do projeto. Me diz exatamente o que quer mudar nele?''\<rparr>), tr)
         | None \<Rightarrow>
             (let st = apply_changes w r branch
                         (or_else (p_commit_message parsed) (js ''update via JTC COD''))
                         \<lparr>cs_trace = tr, lastCommitSha = None, filesChanged = [], errors = []\<rparr>
                         (case changes parsed of None \<Rightarrow> [] | Some cs \<Rightarrow> cs)
              in (Reply \<lparr>response = build_response parsed st,
                         files_changed = filesChanged st,
                         commit_sha = lastCommitSha st,
                         commit_message = p_commit_message parsed\<rparr>, cs_trace st))))"

text \<open>The handler.\<close>

definition code_agent :: "world \<Rightarrow> agent_request \<Rightarrow> reply \<times> effect list" where
  "code_agent w rq =
     (if req_method rq = js ''OPTIONS'' then (Preflight, [])
      else
        (case plan_changes w rq of
           (Inl rp, tr) \<Rightarrow> (rp, tr)
         | (Inr (branch, parsed), tr) \<Rightarrow> review_and_commit w tr (req_repo rq) branch parsed))"

subsection \<open>The commit record the client keeps (ChatInterface.tsx lines 155-191)\<close>

text \<open>
  The client throws when the agent's answer is not a success. Otherwise, when the answer
  has a commit identifier, it inserts a row into \<^verbatim>\<open>agent_commits\<close> with that
  identifier, the commit message and the list of changed files.
\<close>

record agent_commit =
  ac_commit_sha :: jsstring
  ac_commit_message :: jsstring
  ac_files_changed :: "path list"

definition persisted_commit :: "reply \<Rightarrow> agent_commit option" where
  "persisted_commit rp =
     (case rp of
        Reply data \<Rightarrow>
          if truthy (commit_sha data) then
            Some \<lparr>ac_commit_sha = or_else (commit_sha data) [],
                  ac_commit_message = or_else (commit_message data) (js ''update via JTC COD''),
                  ac_files_changed = files_changed data\<rparr>
          else None
      | _ \<Rightarrow> None)"

section \<open>The undo handler (undo-commit/index.ts lines 9-113)\<close>

record undo_request =
  undo_method :: jsstring
  undo_commit_sha :: jsstring
  undo_repo :: repo

text \<open>
  A field missing from the request is the empty string: the check at line 15 treats both
  alike. The reply is \<^verbatim>\<open>{success: true, files_reverted}\<close> or \<^verbatim>\<open>{error: msg}\<close> with
  status 500.
\<close>

datatype undo_reply =
    UndoPreflight
  | Reverted "path list"
  | UndoFailure nat jsstring

record undo_state =
  us_trace :: "effect list"
  filesReverted :: "path list"

definition parent_sha :: "body \<Rightarrow> jsstring option" where
  "parent_sha commitData =
     (case commitData of
        CommitBody c \<Rightarrow> (case cd_parents c of [] \<Rightarrow> None | p # ps \<Rightarrow> p)
      | _ \<Rightarrow> None)"

definition commit_files :: "body \<Rightarrow> changed_file list" where
  "commit_files commitData = (case commitData of CommitBody c \<Rightarrow> cd_files c | _ \<Rightarrow> [])"

definition sha_field :: "body \<Rightarrow> jsstring option" where
  "sha_field d = (case d of FileBody f \<Rightarrow> fd_sha f | _ \<Rightarrow> None)"

definition content_field :: "body \<Rightarrow> jsstring option" where
  "content_field d = (case d of FileBody f \<Rightarrow> fd_content f | _ \<Rightarrow> None)"

text \<open>
  One iteration of the loop at lines 34-100. The URLs are built from the file name as
  it is. The responses of the \<^verbatim>\<open>DELETE\<close> and \<^verbatim>\<open>PUT\<close> requests are not read. A
  rejected request throws, and so does line 88 when the parent's file has no
  \<^verbatim>\<open>content\<close> (before the \<^verbatim>\<open>PUT\<close> starts); the \<^verbatim>\<open>catch\<close> at line 97 goes on
  with the next file.
\<close>

definition revert_file ::
  "world \<Rightarrow> repo \<Rightarrow> jsstring \<Rightarrow> undo_state \<Rightarrow> changed_file \<Rightarrow> undo_state" where
  "revert_file w r parentSha st f =
     (if cf_status f = js ''added'' then
        (case fetch w (us_trace st) (Get r (Contents (cf_filename f) None)) of
           (Rejected m, tr1) \<Rightarrow> st\<lparr>us_trace := tr1\<rparr>
         | (Answered currentRes, tr1) \<Rightarrow>
             if ok currentRes then
               (case fetch w tr1 (Delete r (cf_filename f)
                       \<lparr>del_message = js ''revert: undo '' @ cf_filename f,
                        del_sha = sha_field (body currentRes)\<rparr>) of
                  (Rejected m, tr2) \<Rightarrow> st\<lparr>us_trace := tr2\<rparr>
                | (Answered deleted, tr2) \<Rightarrow>
                    \<lparr>us_trace = tr2, filesReverted = filesReverted st @ [cf_filename f]\<rparr>)
             else st\<lparr>us_trace := tr1\<rparr>)
      else
        (case fetch w (us_trace st) (Get r (Contents (cf_filename f) (Some parentSha))) of
           (Rejected m, tr1) \<Rightarrow> st\<lparr>us_trace := tr1\<rparr>
         | (Answered parentFileRes, tr1) \<Rightarrow>
             if ok parentFileRes then
               (case fetch w tr1 (Get r (Contents (cf_filename f) None)) of
                  (Rejected m, tr2) \<Rightarrow> st\<lparr>us_trace := tr2\<rparr>
                | (Answered currentRes, tr2) \<Rightarrow>
                    if ok currentRes then
                      (case content_field (body parentFileRes) of
                         None \<Rightarrow> st\<lparr>us_trace := tr2\<rparr>
                       | Some content \<Rightarrow>
                           (case fetch w tr2 (Put r (cf_filename f)
                                   \<lparr>put_message = js ''revert: undo changes to '' @ cf_filename f,
                                    put_content = filter (\<lambda>u. u \<noteq> 0x0A) content,
                                    put_sha = sha_field (body currentRes),
                                    put_branch = None\<rparr>) of
                              (Rejected m, tr3) \<Rightarrow> st\<lparr>us_trace := tr3\<rparr>
                            | (Answered written, tr3) \<Rightarrow>
                                \<lparr>us_trace = tr3,
                                 filesReverted = filesReverted st @ [cf_filename f]\<rparr>))
                    else st\<lparr>us_trace := tr2\<rparr>)
             else st\<lparr>us_trace := tr1\<rparr>))"

definition undo_commit :: "world \<Rightarrow> undo_request \<Rightarrow> undo_reply \<times> effect list" where
  "undo_commit w rq =
     (if undo_method rq = js ''OPTIONS'' then (UndoPreflight, [])
      else if undo_commit_sha rq = [] \<or> repo_owner (undo_repo rq) = []
              \<or> repo_name (undo_repo rq) = [] \<or> github_token (undo_repo rq) = [] then
        (UndoFailure 500 (js ''Missing required parameters''), [])
      else
        (case fetch w [] (Get (undo_repo rq) (Commit (undo_commit_sha rq))) of
           (Rejected m, tr1) \<Rightarrow> (UndoFailure 500 m, tr1)
         | (Answered commitRes, tr1) \<Rightarrow>
             if \<not> ok commitRes then (UndoFailure 500 (js ''Could not fetch commit details''), tr1)
             else if \<not> truthy (parent_sha (body commitRes)) then
               (UndoFailure 500 (js ''Cannot revert: no parent commit found''), tr1)
             else
               (let st = foldl (revert_file w (undo_repo rq)
                                  (or_else (parent_sha (body commitRes)) []))
                           \<lparr>us_trace = tr1, filesReverted = []\<rparr>
                           (commit_files (body commitRes))
                in (Reverted (filesReverted st), us_trace st))))"

section \<open>The generation backend adapter (undo-commit/index.ts lines 199-292)\<close>

record ai_config =
  cfg_url :: jsstring
  cfg_key :: jsstring
  intentModel :: jsstring
  chatModel :: jsstring
  codeModel :: jsstring
  selectionModel :: jsstring

definition getAiConfig :: "jsstring \<Rightarrow> jsstring \<Rightarrow> ai_config" where
  "getAiConfig provider apiKey =
     (if provider = js ''openai'' then
        \<lparr>cfg_url = js ''https://api.openai.com/v1/chat/completions'', cfg_key = apiKey,
         intentModel = js ''gpt-4o-mini'', chatModel = js ''gpt-4o-mini'',
         codeModel = js ''gpt-4o'', selectionModel = js ''gpt-4o-mini''\<rparr>
      else
        \<lparr>cfg_url = js ''https://generativelanguage.googleapis.com/v1beta/openai/chat/completions'',
         cfg_key = apiKey,
         intentModel = js ''gemini-2.0-flash-lite'', chatModel = js ''gemini-2.0-flash'',
         codeModel = js ''gemini-2.5-flash'', selectionModel = js ''gemini-2.0-flash''\<rparr>)"

text \<open>
  What the adapter throws: the object \<^verbatim>\<open>{status, message}\<close>, or the \<^verbatim>\<open>Error\<close> of a
  rejected request.
\<close>

datatype ai_thrown =
    Tagged nat jsstring
  | Untagged jsstring

text \<open>\<^verbatim>\<open>if (maxTokens) body.max_tokens = maxTokens\<close>: zero is false.\<close>

definition max_tokens_field :: "nat option \<Rightarrow> nat option" where
  "max_tokens_field maxTokens =
     (case maxTokens of None \<Rightarrow> None | Some n \<Rightarrow> if n = 0 then None else Some n)"

definition fallback_call :: "world \<Rightarrow> prompt \<Rightarrow> nat \<Rightarrow> nat option \<Rightarrow> effect" where
  "fallback_call w messages temperature maxTokens =
     Post \<lparr>ai_url = gateway_url, ai_key = or_else (lovable_api_key w) [],
           ai_model = js ''google/gemini-3-flash-preview'', ai_messages = messages,
           ai_temperature = temperature, ai_max_tokens = max_tokens_field maxTokens\<rparr>"

definition callLovableAi ::
  "world \<Rightarrow> effect list \<Rightarrow> prompt \<Rightarrow> nat \<Rightarrow> nat option \<Rightarrow> (ai_thrown + body) \<times> effect list" where
  "callLovableAi w tr messages temperature maxTokens =
     (if \<not> truthy (lovable_api_key w) then
        (Inl (Tagged 500 (js ''Fallback AI n'' @ [0xE3] @ js ''o configurado'')), tr)
      else
        (case fetch w tr (fallback_call w messages temperature maxTokens) of
           (Rejected m, tr1) \<Rightarrow> (Inl (Untagged m), tr1)
         | (Answered res, tr1) \<Rightarrow>
             if \<not> ok res then
               (if status res = 429 then
                  (Inl (Tagged 429 (js ''Limite de requisi'' @ [0xE7, 0xF5]
                     @ js ''es atingido. Tente novamente em alguns segundos.'')), tr1)
                else if status res = 402 then
                  (Inl (Tagged 402 (js ''Cr'' @ [0xE9] @ js ''ditos de IA esgotados.'')), tr1)
                else (Inl (Tagged 500 (js ''Erro no fallback de IA'')), tr1))
             else (Inr (body res), tr1)))"

definition maxRetries :: nat where
  "maxRetries = 3"

definition primary_call :: "ai_config \<Rightarrow> jsstring \<Rightarrow> prompt \<Rightarrow> nat \<Rightarrow> nat option \<Rightarrow> effect" where
  "primary_call config model messages temperature maxTokens =
     Post \<lparr>ai_url = cfg_url config, ai_key = cfg_key config, ai_model = model,
           ai_messages = messages, ai_temperature = temperature,
           ai_max_tokens = max_tokens_field maxTokens\<rparr>"

text \<open>
  The loop of \<^verbatim>\<open>callAi\<close> (lines 233-260) from a given value of \<^verbatim>\<open>attempt\<close>; the
  last line is the \<^verbatim>\<open>throw\<close> after the loop (line 261).
\<close>

function callAi_from ::
  "world \<Rightarrow> ai_config \<Rightarrow> jsstring \<Rightarrow> prompt \<Rightarrow> nat \<Rightarrow> nat option \<Rightarrow> nat \<Rightarrow> effect list
     \<Rightarrow> (ai_thrown + body) \<times> effect list" where
  "callAi_from w config model messages temperature maxTokens attempt tr =
     (if attempt < maxRetries then
        (case fetch w tr (primary_call config model messages temperature maxTokens) of
           (Rejected m, tr1) \<Rightarrow> (Inl (Untagged m), tr1)
         | (Answered res, tr1) \<Rightarrow>
             if ok res then (Inr (body res), tr1)
             else if status res = 429 then
               (if attempt < maxRetries - 1 then
                  callAi_from w config model messages temperature maxTokens (attempt + 1)
                    (tr1 @ [Sleep (2 ^ (attempt + 1) * 1000)])
                else callLovableAi w tr1 messages temperature maxTokens)
             else if status res = 401 \<or> status res = 403 then
               (Inl (Tagged 401 (js ''Chave API inv'' @ [0xE1] @ js ''lida. Verifique nas configura''
                  @ [0xE7, 0xF5] @ js ''es do perfil.'')), tr1)
             else (Inl (Tagged 500 (js ''Erro na IA'')), tr1))
      else (Inl (Tagged 500 (js ''Erro inesperado na IA'')), tr))"
  by pat_completeness auto
termination
  by (relation "measure (\<lambda>(w, config, model, messages, temperature, maxTokens, attempt, tr).
        maxRetries - attempt)") auto

declare callAi_from.simps [simp del]

definition callAi ::
  "world \<Rightarrow> effect list \<Rightarrow> ai_config \<Rightarrow> jsstring \<Rightarrow> prompt \<Rightarrow> nat \<Rightarrow> nat option
     \<Rightarrow> (ai_thrown + body) \<times> effect list" where
  "callAi w tr config model messages temperature maxTokens =
     callAi_from w config model messages temperature maxTokens 0 tr"

section \<open>Reading a trace\<close>

definition is_put :: "effect \<Rightarrow> bool" where
  "is_put e = (case e of Put r p b \<Rightarrow> True | _ \<Rightarrow> False)"

definition is_write :: "effect \<Rightarrow> bool" where
  "is_write e = (case e of Put r p b \<Rightarrow> True | Delete r p b \<Rightarrow> True | _ \<Rightarrow> False)"

definition sleeps :: "effect list \<Rightarrow> nat list" where
  "sleeps tr = concat (map (\<lambda>e. case e of Sleep ms \<Rightarrow> [ms] | _ \<Rightarrow> []) tr)"

text \<open>
  The writes in the part \<open>es\<close> of a trace that follows \<open>before\<close> which the world
  answered with a success, each with its path and its answer.
\<close>

fun answered_puts ::
  "world \<Rightarrow> effect list \<Rightarrow> effect list \<Rightarrow> (path \<times> http_response) list" where
  "answered_puts w before [] = []"
| "answered_puts w before (e # es) =
     (case e of
        Put r p b \<Rightarrow>
          (case respond w before e of
             Rejected m \<Rightarrow> []
           | Answered res \<Rightarrow> if ok res then [(p, res)] else [])
      | _ \<Rightarrow> [])
     @ answered_puts w (before @ [e]) es"

lemma answered_puts_append:
  "answered_puts w tr (xs @ ys) = answered_puts w tr xs @ answered_puts w (tr @ xs) ys"
  by (induction xs arbitrary: tr) simp_all

section \<open>Undo of a commit without a parent\<close>

definition demo_repo :: repo where
  "demo_repo = \<lparr>repo_owner = js ''acme'', repo_name = js ''site'', github_token = js ''t0ken''\<rparr>"

definition not_found :: outcome where
  "not_found = Answered \<lparr>status = 404, body = OtherBody\<rparr>"

text \<open>\<^verbatim>\<open>toLowerCase\<close> on a string of ASCII characters.\<close>

definition ascii_lower :: "jsstring \<Rightarrow> jsstring" where
  "ascii_lower s = map (\<lambda>c. if 65 \<le> c \<and> c \<le> 90 then c + 32 else c) s"

text \<open>A repository whose commit \<^verbatim>\<open>c0ffee\<close> is the root commit and added one file.\<close>

definition root_world :: world where
  "root_world =
     \<lparr>respond = (\<lambda>tr e. case e of
          Get r (Commit s) \<Rightarrow>
            Answered \<lparr>status = 200,
              body = CommitBody \<lparr>cd_parents = [],
                cd_files = [\<lparr>cf_filename = js ''a.txt'', cf_status = js ''added''\<rparr>]\<rparr>\<rparr>
        | _ \<Rightarrow> not_found),
      arrival = (\<lambda>tr e. 0),
      lovable_api_key = None, toLowerCase = ascii_lower,
      atob_utf8 = Inr, btoa_utf8 = (\<lambda>s. s),
      parse_paths = (\<lambda>s. None), parse_changes = (\<lambda>s. None)\<rparr>"

definition root_request :: undo_request where
  "root_request =
     \<lparr>undo_method = js ''POST'', undo_commit_sha = js ''c0ffee'', undo_repo = demo_repo\<rparr>"

text \<open>
  Claim C7. When the commit's metadata was fetched and names no parent (no
  \<^verbatim>\<open>parents\<close> entry, or a first entry without a \<^verbatim>\<open>sha\<close>), the undo handler
  answers with the error \<^verbatim>\<open>Cannot revert: no parent commit found\<close> (status 500) and its
  only effect is the read of the commit: no \<^verbatim>\<open>PUT\<close> and no \<^verbatim>\<open>DELETE\<close> is sent.
\<close>

theorem undo_without_parent:
  assumes "undo_method rq \<noteq> js ''OPTIONS''"
    and "undo_commit_sha rq \<noteq> []" and "repo_owner (undo_repo rq) \<noteq> []"
    and "repo_name (undo_repo rq) \<noteq> []" and "github_token (undo_repo rq) \<noteq> []"
    and "respond w [] (Get (undo_repo rq) (Commit (undo_commit_sha rq))) = Answered commitRes"
    and "ok commitRes"
    and "\<not> truthy (parent_sha (body commitRes))"
  shows "undo_commit w rq =
           (UndoFailure 500 (js ''Cannot revert: no parent commit found''),
            [Get (undo_repo rq) (Commit (undo_commit_sha rq))])
         \<and> filter is_write (snd (undo_commit w rq)) = []"
  using assms by (simp add: undo_commit_def fetch_def is_write_def)

theorem undo_without_parent_witness:
  "respond root_world [] (Get demo_repo (Commit (js ''c0ffee''))) =
     Answered \<lparr>status = 200,
       body = CommitBody \<lparr>cd_parents = [],
         cd_files = [\<lparr>cf_filename = js ''a.txt'', cf_status = js ''added''\<rparr>]\<rparr>\<rparr>
   \<and> undo_commit root_world root_request =
        (UndoFailure 500 (js ''Cannot revert: no parent commit found''),
         [Get demo_repo (Commit (js ''c0ffee''))])
   \<and> filter is_write (snd (undo_commit root_world root_request)) = []"
  using undo_without_parent [of root_request root_world
      "\<lparr>status = 200,
        body = CommitBody \<lparr>cd_parents = [],
          cd_files = [\<lparr>cf_filename = js ''a.txt'', cf_status = js ''added''\<rparr>]\<rparr>\<rparr>"]
  by (simp add: root_world_def root_request_def demo_repo_def ok_def truthy_def parent_sha_def
      is_write_def)

section \<open>Rate limiting in the backend adapter\<close>

text \<open>A user whose own backend is always rate limited; the fallback gateway answers.\<close>

definition limited_world :: world where
  "limited_world =
     \<lparr>respond = (\<lambda>tr e. case e of
          Post c \<Rightarrow>
            if ai_url c = gateway_url
            then Answered \<lparr>status = 200, body = ChatBody (Some (js ''chat''))\<rparr>
            else Answered \<lparr>status = 429, body = OtherBody\<rparr>
        | _ \<Rightarrow> not_found),
      arrival = (\<lambda>tr e. 0),
      lovable_api_key = Some (js ''lovable''), toLowerCase = ascii_lower,
      atob_utf8 = Inr, btoa_utf8 = (\<lambda>s. s),
      parse_paths = (\<lambda>s. None), parse_changes = (\<lambda>s. None)\<rparr>"

definition demo_config :: ai_config where
  "demo_config = getAiConfig (js ''openai'') (js ''sk-user'')"

lemma callAi_three_429:
  assumes "respond w tr c = Answered r1" and "status r1 = 429"
    and "respond w (tr @ [c, Sleep 2000]) c = Answered r2" and "status r2 = 429"
    and "respond w (tr @ [c, Sleep 2000, c, Sleep 4000]) c = Answered r3" and "status r3 = 429"
    and c: "c = primary_call config model messages temperature maxTokens"
  shows "callAi w tr config model messages temperature maxTokens =
           callLovableAi w (tr @ [c, Sleep 2000, c, Sleep 4000, c]) messages temperature maxTokens"
proof -
  have limited: "\<And>res. status res = 429 \<Longrightarrow> \<not> ok res"
    by (simp add: ok_def)
  have third: "callAi_from w config model messages temperature maxTokens 2
                 (tr @ [c, Sleep 2000, c, Sleep 4000])
               = callLovableAi w (tr @ [c, Sleep 2000, c, Sleep 4000, c])
                   messages temperature maxTokens"
    using assms(5,6) limited[OF assms(6)] unfolding c
    by (subst callAi_from.simps) (simp add: maxRetries_def fetch_def)
  have second: "callAi_from w config model messages temperature maxTokens 1
                  (tr @ [c, Sleep 2000])
                = callAi_from w config model messages temperature maxTokens 2
                    (tr @ [c, Sleep 2000, c, Sleep 4000])"
    using assms(3,4) limited[OF assms(4)] unfolding c
    by (subst callAi_from.simps) (simp add: maxRetries_def fetch_def numeral_2_eq_2)
  have first: "callAi_from w config model messages temperature maxTokens 0 tr
               = callAi_from w config model messages temperature maxTokens 1
                   (tr @ [c, Sleep 2000])"
    using assms(1,2) limited[OF assms(2)] unfolding c
    by (subst callAi_from.simps) (simp add: maxRetries_def fetch_def)
  show ?thesis
    unfolding callAi_def first second third ..
qed

text \<open>
  Claim C6, as stated, fails. With the primary backend answering 429 to each of the
  three attempts, \<^verbatim>\<open>callAi\<close> waits twice, 2000 ms and 4000 ms, not three times: the
  guard \<^verbatim>\<open>attempt < maxRetries - 1\<close> at line 243 is false at the third attempt, which
  goes to the fallback at once.
\<close>

theorem three_waits_counterexample:
  "sleeps (snd (callAi limited_world [] demo_config (js ''gpt-4o-mini'') (IntentPrompt (js ''oi'')) 0
                  (Some 10))) = [2000, 4000]
   \<and> length (sleeps (snd (callAi limited_world [] demo_config (js ''gpt-4o-mini'')
                             (IntentPrompt (js ''oi'')) 0 (Some 10)))) \<noteq> 3"
  unfolding callAi_def
  by (simp add: callAi_from.simps maxRetries_def fetch_def limited_world_def demo_config_def
      getAiConfig_def primary_call_def gateway_url_def ok_def callLovableAi_def truthy_def
      sleeps_def fallback_call_def)

text \<open>
  Claim C6, amended. When the primary backend answers 429 to three consecutive attempts
  of one call \<open>c\<close>, the effects of \<^verbatim>\<open>callAi\<close> are exactly: the call, a wait of 2000 ms,
  the call, a wait of 4000 ms, the call, and then, with no further wait, one call to the
  fallback backend when \<^verbatim>\<open>LOVABLE_API_KEY\<close> is configured (none when it is not). The
  result is the result of \<^verbatim>\<open>callLovableAi\<close>.
\<close>

theorem callAi_rate_limited:
  assumes "respond w tr c = Answered r1" and "status r1 = 429"
    and "respond w (tr @ [c, Sleep 2000]) c = Answered r2" and "status r2 = 429"
    and "respond w (tr @ [c, Sleep 2000, c, Sleep 4000]) c = Answered r3" and "status r3 = 429"
    and "c = primary_call config model messages temperature maxTokens"
  shows "snd (callAi w tr config model messages temperature maxTokens) =
           tr @ [c, Sleep 2000, c, Sleep 4000, c]
              @ (if truthy (lovable_api_key w)
                 then [fallback_call w messages temperature maxTokens] else [])
         \<and> fst (callAi w tr config model messages temperature maxTokens) =
             fst (callLovableAi w (tr @ [c, Sleep 2000, c, Sleep 4000, c])
                    messages temperature maxTokens)"
  unfolding callAi_three_429[OF assms]
  by (simp add: callLovableAi_def fetch_def split: prod.splits outcome.splits)

theorem callAi_rate_limited_witness:
  "respond limited_world []
      (primary_call demo_config (js ''gpt-4o-mini'') (IntentPrompt (js ''oi'')) 0 (Some 10))
     = Answered \<lparr>status = 429, body = OtherBody\<rparr>
   \<and> snd (callAi limited_world [] demo_config (js ''gpt-4o-mini'') (IntentPrompt (js ''oi'')) 0
            (Some 10)) =
       [primary_call demo_config (js ''gpt-4o-mini'') (IntentPrompt (js ''oi'')) 0 (Some 10),
        Sleep 2000,
        primary_call demo_config (js ''gpt-4o-mini'') (IntentPrompt (js ''oi'')) 0 (Some 10),
        Sleep 4000,
        primary_call demo_config (js ''gpt-4o-mini'') (IntentPrompt (js ''oi'')) 0 (Some 10),
        fallback_call limited_world (IntentPrompt (js ''oi'')) 0 (Some 10)]
   \<and> fst (callAi limited_world [] demo_config (js ''gpt-4o-mini'') (IntentPrompt (js ''oi'')) 0
            (Some 10)) =
       Inr (ChatBody (Some (js ''chat'')))"
proof -
  have limited: "\<And>tr. respond limited_world tr
      (primary_call demo_config (js ''gpt-4o-mini'') (IntentPrompt (js ''oi'')) 0 (Some 10))
      = Answered \<lparr>status = 429, body = OtherBody\<rparr>"
    by (simp add: limited_world_def demo_config_def getAiConfig_def primary_call_def
        gateway_url_def)
  have status: "status \<lparr>status = 429, body = OtherBody\<rparr> = 429"
    by simp
  have key: "truthy (lovable_api_key limited_world)"
    by (simp add: limited_world_def truthy_def)
  have answer: "\<And>tr. respond limited_world tr
      (fallback_call limited_world (IntentPrompt (js ''oi'')) 0 (Some 10))
      = Answered \<lparr>status = 200, body = ChatBody (Some (js ''chat''))\<rparr>"
    by (simp add: limited_world_def fallback_call_def)
  show ?thesis
    using callAi_rate_limited [OF limited status limited status limited status refl]
    by (simp add: limited key answer callLovableAi_def fetch_def ok_def)
qed

section \<open>Relevance selection\<close>

lemma fallback_selection_in_tree:
  "filter (\<lambda>f. f \<in> set allFiles) (fallback_selection allFiles) = fallback_selection allFiles"
proof -
  have "set (fallback_selection allFiles) \<subseteq> set allFiles"
    unfolding fallback_selection_def using set_take_subset[of 12] by fastforce
  then show ?thesis by (auto simp: filter_id_conv)
qed

lemma blob_paths_are_blobs:
  "p \<in> set (blob_paths tree) \<Longrightarrow>
     \<exists>es. tree = TreeBody (Some es)
       \<and> (\<exists>e\<in>set es. entry_path e = p \<and> entry_type e = js ''blob'')"
  by (auto simp: blob_paths_def split: body.splits option.splits)

text \<open>A successful chat completion with the given content.\<close>

definition chat_answer :: "jsstring \<Rightarrow> http_response" where
  "chat_answer s = \<lparr>status = 200, body = ChatBody (Some s)\<rparr>"

text \<open>The JSON text of an array of plain strings.\<close>

definition json_array :: "jsstring list \<Rightarrow> jsstring" where
  "json_array xs = js ''['' @ join (js '', '') (map (\<lambda>x. [0x22] @ x @ [0x22]) xs) @ js '']''"

definition sixteen_files :: "path list" where
  "sixteen_files = [js ''f01.ts'', js ''f02.ts'', js ''f03.ts'', js ''f04.ts'', js ''f05.ts'',
     js ''f06.ts'', js ''f07.ts'', js ''f08.ts'', js ''f09.ts'', js ''f10.ts'', js ''f11.ts'',
     js ''f12.ts'', js ''f13.ts'', js ''f14.ts'', js ''f15.ts'', js ''f16.ts'']"

definition small_tree :: "path list" where
  "small_tree = [js ''src/App.tsx'', js ''README.md'', js ''package.json'', js ''logo.png'',
     js ''src/index.css'']"

text \<open>\<^verbatim>\<open>JSON.parse\<close> on the array texts used in the examples below.\<close>

definition demo_paths :: "jsstring \<Rightarrow> path list option" where
  "demo_paths s =
     (if s = js ''[]'' then Some []
      else if s = json_array sixteen_files then Some sixteen_files
      else if s = json_array [js ''src/App.tsx'', js ''src/Gone.tsx'']
        then Some [js ''src/App.tsx'', js ''src/Gone.tsx'']
      else None)"

definition selector_world :: world where
  "selector_world =
     \<lparr>respond = (\<lambda>tr e. not_found),
      arrival = (\<lambda>tr e. 0),
      lovable_api_key = Some (js ''lovable''), toLowerCase = ascii_lower,
      atob_utf8 = Inr, btoa_utf8 = (\<lambda>s. s),
      parse_paths = demo_paths, parse_changes = (\<lambda>s. None)\<rparr>"

definition small_entries :: "tree_entry list" where
  "small_entries = [\<lparr>entry_path = js ''src'', entry_type = js ''tree''\<rparr>,
                    \<lparr>entry_path = js ''src/App.tsx'', entry_type = js ''blob''\<rparr>,
                    \<lparr>entry_path = js ''README.md'', entry_type = js ''blob''\<rparr>]"

definition fenced_empty :: jsstring where
  "fenced_empty = fence @ js ''json'' @ [0x0A] @ js ''[]'' @ [0x0A] @ fence"

lemma strip_fenced_empty: "strip_code_fences fenced_empty = js ''[]''"
  by (simp add: strip_code_fences_def fenced_empty_def fence_def trim_def is_space_def
      drop_line_feed_def js_def)

lemma strip_sixteen: "strip_code_fences (json_array sixteen_files) = json_array sixteen_files"
  by (simp add: strip_code_fences_def json_array_def sixteen_files_def fence_def trim_def
      is_space_def drop_line_feed_def js_def)

lemma strip_two:
  "strip_code_fences (json_array [js ''src/App.tsx'', js ''src/Gone.tsx''])
     = json_array [js ''src/App.tsx'', js ''src/Gone.tsx'']"
  by (simp add: strip_code_fences_def json_array_def fence_def trim_def is_space_def
      drop_line_feed_def js_def)

text \<open>
  Claim C8. When the answer of the selection call, stripped of code fences, does not parse
  or parses to the empty array, the selected files are the fallback: the blob paths whose
  name ends in one of the extensions of \<open>codeExts\<close>, in tree order, cut to the first 12.
  The later filter against the tree removes none of them.
\<close>

theorem fallback_when_unparsed:
  assumes "parse_paths w (strip_code_fences (or_else (chat_content selectionRes) (js ''[]''))) = None
           \<or> parse_paths w (strip_code_fences (or_else (chat_content selectionRes) (js ''[]'')))
               = Some []"
  shows "select_files w allFiles selectionRes =
           take 12 (filter (\<lambda>f. list_ex (\<lambda>ext. endsWith f ext) codeExts) allFiles)
         \<and> length (select_files w allFiles selectionRes) \<le> 12"
proof -
  have "selection_answer w selectionRes = []"
    using assms by (auto simp: selection_answer_def)
  then have "select_files w allFiles selectionRes = fallback_selection allFiles"
    by (simp add: select_files_def fallback_selection_in_tree)
  then show ?thesis by (simp add: fallback_selection_def)
qed

theorem fallback_when_unparsed_witness:
  "parse_paths selector_world
      (strip_code_fences (or_else (chat_content (chat_answer fenced_empty)) (js ''[]''))) = Some []
   \<and> select_files selector_world small_tree (chat_answer fenced_empty) =
       [js ''src/App.tsx'', js ''package.json'', js ''src/index.css'']"
proof -
  have "fenced_empty \<noteq> []" by (simp add: fenced_empty_def fence_def)
  then have empty: "parse_paths selector_world
      (strip_code_fences (or_else (chat_content (chat_answer fenced_empty)) (js ''[]''))) = Some []"
    by (simp add: chat_answer_def chat_content_def or_else_def strip_fenced_empty
        selector_world_def demo_paths_def)
  have exts: "filter (\<lambda>f. list_ex (\<lambda>ext. endsWith f ext) codeExts) small_tree =
      [js ''src/App.tsx'', js ''package.json'', js ''src/index.css'']"
    by (simp add: small_tree_def codeExts_def endsWith_def js_def)
  show ?thesis
    using fallback_when_unparsed [of selector_world "chat_answer fenced_empty" small_tree] empty
    by (simp add: exts)
qed

text \<open>
  Claim C9, as stated, fails. The count of 15 is only asked for in the prompt (line 205);
  the handler applies no cap to the parsed answer. An answer listing 16 paths of the tree
  selects all 16.
\<close>

theorem more_than_fifteen_counterexample:
  "length (select_files selector_world sixteen_files (chat_answer (json_array sixteen_files))) = 16
   \<and> \<not> length (select_files selector_world sixteen_files
                  (chat_answer (json_array sixteen_files))) \<le> 15"
proof -
  have "json_array sixteen_files \<noteq> []" by (simp add: json_array_def js_def)
  moreover have "json_array sixteen_files \<noteq> js ''[]''"
    by (simp add: json_array_def sixteen_files_def js_def)
  ultimately have "selection_answer selector_world (chat_answer (json_array sixteen_files))
      = sixteen_files"
    by (simp add: selection_answer_def chat_answer_def ok_def chat_content_def or_else_def
        strip_sixteen selector_world_def demo_paths_def)
  then have "select_files selector_world sixteen_files (chat_answer (json_array sixteen_files))
      = sixteen_files"
    by (simp add: select_files_def sixteen_files_def)
  then show ?thesis by (simp add: sixteen_files_def)
qed

text \<open>
  Claim C9, amended. When the selection call succeeds and its answer parses to a
  non-empty array of paths, the selected files are that array restricted to the blob
  paths of the tree: no more paths than the answer lists, and every selected path is the
  path of a \<^verbatim>\<open>blob\<close> entry of the tree.
\<close>

theorem selection_within_tree:
  assumes "ok selectionRes"
    and "parse_paths w (strip_code_fences (or_else (chat_content selectionRes) (js ''[]'')))
           = Some paths"
    and "paths \<noteq> []"
  shows "select_files w (blob_paths (TreeBody (Some es))) selectionRes =
           filter (\<lambda>f. f \<in> set (blob_paths (TreeBody (Some es)))) paths
         \<and> length (select_files w (blob_paths (TreeBody (Some es))) selectionRes) \<le> length paths
         \<and> (\<forall>p \<in> set (select_files w (blob_paths (TreeBody (Some es))) selectionRes).
              \<exists>e \<in> set es. entry_path e = p \<and> entry_type e = js ''blob'')"
proof -
  have "selection_answer w selectionRes = paths"
    using assms by (simp add: selection_answer_def)
  then have eq: "select_files w (blob_paths (TreeBody (Some es))) selectionRes =
           filter (\<lambda>f. f \<in> set (blob_paths (TreeBody (Some es)))) paths"
    using assms(3) by (simp add: select_files_def)
  moreover have "\<forall>p \<in> set (filter (\<lambda>f. f \<in> set (blob_paths (TreeBody (Some es)))) paths).
              \<exists>e \<in> set es. entry_path e = p \<and> entry_type e = js ''blob''"
    using blob_paths_are_blobs[of _ "TreeBody (Some es)"] by auto
  ultimately show ?thesis by simp
qed

theorem selection_within_tree_witness:
  "ok (chat_answer (json_array [js ''src/App.tsx'', js ''src/Gone.tsx'']))
   \<and> parse_paths selector_world (strip_code_fences (or_else (chat_content
        (chat_answer (json_array [js ''src/App.tsx'', js ''src/Gone.tsx'']))) (js ''[]'')))
       = Some [js ''src/App.tsx'', js ''src/Gone.tsx'']
   \<and> select_files selector_world (blob_paths (TreeBody (Some small_entries)))
        (chat_answer (json_array [js ''src/App.tsx'', js ''src/Gone.tsx''])) = [js ''src/App.tsx'']"
proof -
  have answered: "ok (chat_answer (json_array [js ''src/App.tsx'', js ''src/Gone.tsx'']))"
    by (simp add: chat_answer_def ok_def)
  have "json_array [js ''src/App.tsx'', js ''src/Gone.tsx''] \<noteq> []"
    by (simp add: json_array_def js_def)
  moreover have "json_array [js ''src/App.tsx'', js ''src/Gone.tsx''] \<noteq> js ''[]''"
    by (simp add: json_array_def js_def)
  moreover have "json_array [js ''src/App.tsx'', js ''src/Gone.tsx''] \<noteq> json_array sixteen_files"
    by (simp add: json_array_def sixteen_files_def js_def)
  ultimately have parsed: "parse_paths selector_world (strip_code_fences (or_else (chat_content
        (chat_answer (json_array [js ''src/App.tsx'', js ''src/Gone.tsx'']))) (js ''[]'')))
       = Some [js ''src/App.tsx'', js ''src/Gone.tsx'']"
    by (simp add: chat_answer_def chat_content_def or_else_def strip_two selector_world_def
        demo_paths_def)
  have blobs: "blob_paths (TreeBody (Some small_entries)) = [js ''src/App.tsx'', js ''README.md'']"
    by (simp add: blob_paths_def small_entries_def)
  show ?thesis
    using selection_within_tree [OF answered parsed, of small_entries] answered parsed
    by (simp add: blobs)
qed

section \<open>A project and its edits\<close>

text \<open>
  The worlds of the examples below decode and encode base64 by a table of the contents
  that occur in them.
\<close>

definition app_content :: jsstring where
  "app_content = js ''QXBw'' @ [0x0A]"

definition css_content :: jsstring where
  "css_content = js ''Ym9keXt9'' @ [0x0A]"

definition big_content :: jsstring where
  "big_content = concat (replicate 6666 (js ''YWFh'')) @ js ''YWE=''"

definition demo_decode :: "jsstring \<Rightarrow> jsstring + jsstring" where
  "demo_decode s =
     (if s = js ''QXBw'' then Inr (js ''App'')
      else if s = js ''Ym9keXt9'' then Inr (js ''body{}'')
      else if s = js ''aGVsbG8='' then Inr (js ''hello'')
      else if s = big_content then Inr (replicate 20000 0x61)
      else Inl (js ''The string to be decoded is not correctly encoded.''))"

lemma decode_app: "demo_decode (filter (\<lambda>u. u \<noteq> 0x0A) app_content) = Inr (js ''App'')"
  by (simp add: demo_decode_def app_content_def js_def)

lemma decode_css: "demo_decode (filter (\<lambda>u. u \<noteq> 0x0A) css_content) = Inr (js ''body{}'')"
  by (simp add: demo_decode_def css_content_def js_def)

lemma decode_big:
  "demo_decode (filter (\<lambda>u. u \<noteq> 0x0A) big_content) = Inr (replicate 20000 0x61)"
proof -
  have lines: "filter (\<lambda>u. u \<noteq> 0x0A) big_content = big_content"
    by (simp add: big_content_def filter_concat js_def)
  have "length big_content = 26668"
    by (simp add: big_content_def length_concat js_def sum_list_replicate)
  then have "big_content \<noteq> s" if "length s < 10" for s
    using that by auto
  then show ?thesis unfolding lines by (simp add: demo_decode_def js_def)
qed

definition stored :: "jsstring \<Rightarrow> jsstring \<Rightarrow> jsstring \<Rightarrow> outcome" where
  "stored p content sha =
     Answered \<lparr>status = 200,
       body = FileBody \<lparr>fd_encoding = Some (js ''base64''), fd_content = Some content,
                        fd_sha = Some sha, fd_path = Some p\<rparr>\<rparr>"

text \<open>The JSON text of a change set with the given paths and contents.\<close>

definition quoted :: "jsstring \<Rightarrow> jsstring" where
  "quoted s = [0x22] @ s @ [0x22]"

definition json_changes :: "(path \<times> jsstring) list \<Rightarrow> jsstring" where
  "json_changes edits =
     js ''{'' @ quoted (js ''explanation'') @ js '':'' @ quoted (js ''Feito.'') @ js '',''
     @ quoted (js ''changes'') @ js '':['' @
     join (js '','') (map (\<lambda>(p, c). js ''{'' @ quoted (js ''path'') @ js '':'' @ quoted p @ js '',''
                                  @ quoted (js ''content'') @ js '':'' @ quoted c @ js ''}'') edits)
     @ js '']}''"

definition parsed_changes :: "(path \<times> jsstring) list \<Rightarrow> parsed" where
  "parsed_changes edits =
     \<lparr>explanation = Some (js ''Feito.''),
      changes = Some (map (\<lambda>(p, c). \<lparr>ch_path = Some p, ch_action = None, ch_content = Some c\<rparr>)
                       edits),
      p_commit_message = None\<rparr>"

text \<open>An edit that replaces the manifest by twelve no-break spaces.\<close>

definition blanking_edits :: "(path \<times> jsstring) list" where
  "blanking_edits = [(js ''src/A.tsx'', js ''export const a = 1''),
                     (js ''package.json'',
                      [0xA0, 0xA0, 0xA0, 0xA0, 0xA0, 0xA0, 0xA0, 0xA0, 0xA0, 0xA0, 0xA0, 0xA0])]"

definition three_edits :: "(path \<times> jsstring) list" where
  "three_edits = [(js ''src/A.tsx'', js ''export const a = 1''),
                  (js ''src/B.tsx'', js ''export const b = 2''),
                  (js ''src/C.tsx'', js ''export const c = 3'')]"

definition late_edits :: "(path \<times> jsstring) list" where
  "late_edits = [(js ''src/A.tsx'', js ''export const a = 1''),
                 (js ''src/C.tsx'', js ''export const c = 3''),
                 (js ''src/B.tsx'', js ''export const b = 2'')]"

text \<open>\<^verbatim>\<open>JSON.parse\<close> on the change sets used in the examples below.\<close>

definition demo_changes :: "jsstring \<Rightarrow> parsed option" where
  "demo_changes s =
     (if s = json_changes blanking_edits then Some (parsed_changes blanking_edits)
      else if s = json_changes three_edits then Some (parsed_changes three_edits)
      else if s = json_changes late_edits then Some (parsed_changes late_edits)
      else None)"

text \<open>Base64 of the contents used in the examples below.\<close>

definition demo_encode :: "jsstring \<Rightarrow> jsstring" where
  "demo_encode s =
     (if s = js ''export const a = 1'' then js ''ZXhwb3J0IGNvbnN0IGEgPSAx''
      else if s = js ''export const b = 2'' then js ''ZXhwb3J0IGNvbnN0IGIgPSAy''
      else if s = js ''export const c = 3'' then js ''ZXhwb3J0IGNvbnN0IGMgPSAz''
      else [])"

text \<open>
  A project with a manifest, two source files and an image. The classifier answers
  \<open>intent\<close>, the selector answers with an empty array, the generator answers
  \<open>answer\<close>, the chat model gives the outcome \<open>chat\<close>. Every stored file reads
  \<^verbatim>\<open>hello\<close>. Every write of \<^verbatim>\<open>src/B.tsx\<close> is refused with status 409; a write
  of another path succeeds with a commit named after the path. Outcomes arrive in the
  order of the requests.
\<close>

definition project_tree :: "tree_entry list" where
  "project_tree =
     [\<lparr>entry_path = js ''src'', entry_type = js ''tree''\<rparr>,
      \<lparr>entry_path = js ''package.json'', entry_type = js ''blob''\<rparr>,
      \<lparr>entry_path = js ''src/A.tsx'', entry_type = js ''blob''\<rparr>,
      \<lparr>entry_path = js ''src/B.tsx'', entry_type = js ''blob''\<rparr>,
      \<lparr>entry_path = js ''logo.png'', entry_type = js ''blob''\<rparr>]"

definition project_world :: "jsstring \<Rightarrow> jsstring \<Rightarrow> outcome \<Rightarrow> world" where
  "project_world intent answer chat =
     \<lparr>respond = (\<lambda>tr e. case e of
          Get r Repository \<Rightarrow> Answered \<lparr>status = 200, body = RepoBody (Some (js ''main''))\<rparr>
        | Get r (Tree b) \<Rightarrow> Answered \<lparr>status = 200, body = TreeBody (Some project_tree)\<rparr>
        | Get r (Contents p v) \<Rightarrow>
            if p \<in> set [js ''package.json'', js ''src/A.tsx'', js ''src/B.tsx'']
            then stored p (js ''aGVsbG8='' @ [0x0A]) (js ''blob-'' @ p)
            else not_found
        | Get r (Commit s) \<Rightarrow> not_found
        | Put r p b \<Rightarrow>
            if p = js ''src/B.tsx'' then Answered \<lparr>status = 409, body = OtherBody\<rparr>
            else Answered \<lparr>status = 200, body = PutBody (Some (js ''commit-'' @ p))\<rparr>
        | Delete r p b \<Rightarrow> not_found
        | Post c \<Rightarrow>
            (case ai_messages c of
               IntentPrompt m \<Rightarrow> Answered (chat_answer intent)
             | ChatPrompt ow nm h m \<Rightarrow> chat
             | SelectionPrompt fs m \<Rightarrow> Answered (chat_answer (js ''[]''))
             | CodePrompt ow nm br ty fs ctx crit h m \<Rightarrow> Answered (chat_answer answer))
        | Sleep ms \<Rightarrow> not_found),
      arrival = (\<lambda>tr e. length tr),
      lovable_api_key = Some (js ''lovable''), toLowerCase = ascii_lower,
      atob_utf8 = demo_decode, btoa_utf8 = demo_encode,
      parse_paths = demo_paths, parse_changes = demo_changes\<rparr>"

definition edit_request :: agent_request where
  "edit_request = \<lparr>req_method = js ''POST'', req_message = js ''limpa o projeto'',
                    req_repo = demo_repo, req_history = []\<rparr>"

text \<open>What the agent does in this project before it reads the generator's answer.\<close>

definition project_files :: "path list" where
  "project_files = [js ''package.json'', js ''src/A.tsx'', js ''src/B.tsx'', js ''logo.png'']"

definition project_reads :: "effect list" where
  "project_reads =
     [intent_call (js ''lovable'') edit_request,
      Get demo_repo Repository,
      Get demo_repo (Tree (js ''main'')),
      selection_call (js ''lovable'') project_files edit_request,
      Get demo_repo (Contents (js ''package.json'') None),
      Get demo_repo (Contents (js ''src/A.tsx'') None),
      Get demo_repo (Contents (js ''src/B.tsx'') None),
      code_call (js ''lovable'') (js ''main'') project_files
        (js ''=== package.json ==='' @ [0x0A] @ js ''hello'' @ [0x0A, 0x0A]
         @ js ''=== src/A.tsx ==='' @ [0x0A] @ js ''hello'' @ [0x0A, 0x0A]
         @ js ''=== src/B.tsx ==='' @ [0x0A] @ js ''hello'')
        edit_request]"

lemma project_key: "lovable_api_key (project_world intent answer chat) = Some (js ''lovable'')"
  by (simp add: project_world_def)

lemma project_lower: "toLowerCase (project_world intent answer chat) = ascii_lower"
  by (simp add: project_world_def)

lemma project_decode: "atob_utf8 (project_world intent answer chat) = demo_decode"
  by (simp add: project_world_def)

lemma project_encode: "btoa_utf8 (project_world intent answer chat) = demo_encode"
  by (simp add: project_world_def)

lemma project_paths: "parse_paths (project_world intent answer chat) = demo_paths"
  by (simp add: project_world_def)

lemma project_parse: "parse_changes (project_world intent answer chat) = demo_changes"
  by (simp add: project_world_def)

lemma project_arrival: "arrival (project_world intent answer chat) tr e = length tr"
  by (simp add: project_world_def)

lemma project_intent:
  "respond (project_world intent answer chat) tr (intent_call key rq) = Answered (chat_answer intent)"
  by (simp add: project_world_def intent_call_def)

lemma project_chat:
  "respond (project_world intent answer chat) tr (chat_call key rq) = chat"
  by (simp add: project_world_def chat_call_def)

lemma project_selection:
  "respond (project_world intent answer chat) tr (selection_call key fs rq)
     = Answered (chat_answer (js ''[]''))"
  by (simp add: project_world_def selection_call_def)

lemma project_code:
  "respond (project_world intent answer chat) tr (code_call key branch fs ctx rq)
     = Answered (chat_answer answer)"
  by (simp add: project_world_def code_call_def)

lemma project_branch:
  "respond (project_world intent answer chat) tr (Get r Repository)
     = Answered \<lparr>status = 200, body = RepoBody (Some (js ''main''))\<rparr>"
  by (simp add: project_world_def)

lemma project_listing:
  "respond (project_world intent answer chat) tr (Get r (Tree b))
     = Answered \<lparr>status = 200, body = TreeBody (Some project_tree)\<rparr>"
  by (simp add: project_world_def)

lemma project_read:
  "respond (project_world intent answer chat) tr (Get r (Contents p v)) =
     (if p \<in> set [js ''package.json'', js ''src/A.tsx'', js ''src/B.tsx'']
      then stored p (js ''aGVsbG8='' @ [0x0A]) (js ''blob-'' @ p)
      else not_found)"
  by (simp add: project_world_def)

lemma project_write:
  "respond (project_world intent answer chat) tr (Put r p b) =
     (if p = js ''src/B.tsx'' then Answered \<lparr>status = 409, body = OtherBody\<rparr>
      else Answered \<lparr>status = 200, body = PutBody (Some (js ''commit-'' @ p))\<rparr>)"
  by (simp add: project_world_def)

lemmas project_facts = project_key project_lower project_decode project_encode project_paths
  project_parse project_arrival project_intent project_chat project_selection project_code
  project_branch project_listing project_read project_write

lemma decode_hello:
  "demo_decode (filter (\<lambda>u. u \<noteq> 0x0A) (js ''aGVsbG8='' @ [0x0A])) = Inr (js ''hello'')"
  by (simp add: demo_decode_def js_def)

lemma intent_Code: "ascii_lower (trim (js ''Code'' @ [0x0A])) = js ''code''"
  by (simp add: ascii_lower_def trim_def is_space_def js_def)

lemma project_blobs: "blob_paths (TreeBody (Some project_tree)) = project_files"
  by (simp add: blob_paths_def project_tree_def project_files_def)

lemma project_selected:
  "select_files (project_world intent answer chat) project_files (chat_answer (js ''[]''))
     = [js ''package.json'', js ''src/A.tsx'', js ''src/B.tsx'']"
proof -
  have "strip_code_fences (js ''[]'') = js ''[]''"
    by (simp add: strip_code_fences_def fence_def trim_def is_space_def js_def)
  then have "selection_answer (project_world intent answer chat) (chat_answer (js ''[]'')) = []"
    by (simp add: selection_answer_def chat_answer_def chat_content_def or_else_def ok_def
        project_paths demo_paths_def)
  moreover have "fallback_selection project_files
      = [js ''package.json'', js ''src/A.tsx'', js ''src/B.tsx'']"
    by (simp add: fallback_selection_def project_files_def codeExts_def endsWith_def js_def)
  ultimately show ?thesis
    by (simp add: select_files_def project_files_def)
qed

lemma project_loaded:
  "load_files (project_world intent answer chat) tr demo_repo
       [js ''package.json'', js ''src/A.tsx'', js ''src/B.tsx''] =
     (Inr [\<lparr>lf_content = js ''hello'', lf_sha = Some (js ''blob-'' @ js ''package.json''),
            lf_path = Some (js ''package.json'')\<rparr>,
           \<lparr>lf_content = js ''hello'', lf_sha = Some (js ''blob-'' @ js ''src/A.tsx''),
            lf_path = Some (js ''src/A.tsx'')\<rparr>,
           \<lparr>lf_content = js ''hello'', lf_sha = Some (js ''blob-'' @ js ''src/B.tsx''),
            lf_path = Some (js ''src/B.tsx'')\<rparr>],
      tr @ [Get demo_repo (Contents (js ''package.json'') None),
            Get demo_repo (Contents (js ''src/A.tsx'') None),
            Get demo_repo (Contents (js ''src/B.tsx'') None)])"
proof -
  have wf: "well_formed (js ''package.json'')" "well_formed (js ''src/A.tsx'')"
    "well_formed (js ''src/B.tsx'')"
    by (simp_all add: js_def)
  show ?thesis
    by (simp add: load_files_def getFileContent_def fetch_def wf project_facts stored_def ok_def
        decode_hello del: filter.simps filter_append)
qed


lemma project_plan:
  "plan_changes (project_world (js ''Code'' @ [0x0A]) answer chat) edit_request =
     (case read_changes (project_world (js ''Code'' @ [0x0A]) answer chat) (chat_answer answer) of
        Inl rp \<Rightarrow> Inl rp
      | Inr parsed \<Rightarrow> Inr (js ''main'', parsed),
      project_reads)"
proof -
  have assembled: "file_context
      [\<lparr>lf_content = js ''hello'', lf_sha = Some (js ''blob-'' @ js ''package.json''),
            lf_path = Some (js ''package.json'')\<rparr>,
           \<lparr>lf_content = js ''hello'', lf_sha = Some (js ''blob-'' @ js ''src/A.tsx''),
            lf_path = Some (js ''src/A.tsx'')\<rparr>,
           \<lparr>lf_content = js ''hello'', lf_sha = Some (js ''blob-'' @ js ''src/B.tsx''),
            lf_path = Some (js ''src/B.tsx'')\<rparr>] =
      js ''=== package.json ==='' @ [0x0A] @ js ''hello'' @ [0x0A, 0x0A]
         @ js ''=== src/A.tsx ==='' @ [0x0A] @ js ''hello'' @ [0x0A, 0x0A]
         @ js ''=== src/B.tsx ==='' @ [0x0A] @ js ''hello''"
    by (simp add: file_context_def interpolated_def js_def)
  have repo: "req_repo edit_request = demo_repo"
    by (simp add: edit_request_def)
  show ?thesis
    unfolding plan_changes_def code_mode_def getDefaultBranch_def getRepoTree_def fetch_def
      project_facts project_reads_def
    by (simp add: truthy_def or_else_def chat_answer_def chat_content_def ok_def intent_Code
        project_blobs project_selected [unfolded chat_answer_def] project_loaded assembled repo
        project_facts split: sum.splits)
qed


section \<open>Context assembly\<close>

text \<open>Sorting by a key, as far as the order of arrival needs it.\<close>

lemma insort_key_cong_order:
  assumes "\<And>x y. (f x \<le> f y) = (g x \<le> g y)"
  shows "insort_key f x xs = insort_key g x xs"
  by (induction xs) (simp_all add: assms)

lemma sort_key_cong_order:
  assumes "\<And>x y. (f x \<le> f y) = (g x \<le> g y)"
  shows "sort_key f xs = sort_key g xs"
  by (induction xs) (simp_all add: insort_key_cong_order[OF assms])

lemma insort_key_map:
  "insort_key g (f x) (map f xs) = map f (insort_key (\<lambda>y. g (f y)) x xs)"
  by (induction xs) simp_all

lemma sort_key_map:
  "sort_key g (map f xs) = map f (sort_key (\<lambda>y. g (f y)) xs)"
  by (induction xs) (simp_all add: insort_key_map)

lemma getFileContent_malformed:
  "\<not> well_formed p \<Longrightarrow> getFileContent w tr r p = (Inl uri_malformed, tr)"
  by (simp add: getFileContent_def)

lemma getFileContent_trace:
  "well_formed p \<Longrightarrow> snd (getFileContent w tr r p) = tr @ [Get r (Contents p None)]"
  by (simp add: getFileContent_def fetch_def
      split: outcome.splits body.splits option.splits sum.splits)

lemma loadPromises_indexed:
  assumes "\<forall>p\<in>set ps. well_formed p"
  shows "loadPromises w tr r ps =
     (map (\<lambda>i. (Suc (arrival w (tr @ map (\<lambda>p. Get r (Contents p None)) (take i ps))
                               (Get r (Contents (ps ! i) None))),
                 fst (getFileContent w (tr @ map (\<lambda>p. Get r (Contents p None)) (take i ps)) r
                        (ps ! i))))
          [0..<length ps],
      tr @ map (\<lambda>p. Get r (Contents p None)) ps)"
  using assms
proof (induction ps arbitrary: tr)
  case Nil
  show ?case by simp
next
  case (Cons p ps)
  have wf: "well_formed p" and rest: "\<forall>q\<in>set ps. well_formed q"
    using Cons.prems by simp_all
  obtain settled where first: "getFileContent w tr r p = (settled, tr @ [Get r (Contents p None)])"
    using getFileContent_trace[OF wf, of w tr r] by (cases "getFileContent w tr r p") simp
  have idx: "[0..<length (p # ps)] = 0 # map Suc [0..<length ps]"
    by (simp add: upt_conv_Cons map_Suc_upt del: upt_Suc)
  show ?case
    unfolding idx
    by (simp add: first Cons.IH[OF rest] wf o_def del: upt_Suc)
qed

lemma settle_fulfilled:
  "settle (map Inr xs) =
     Inr (filter (\<lambda>f. length (lf_content f) < 20000)
            (concat (map (\<lambda>x. case x of None \<Rightarrow> [] | Some f \<Rightarrow> [f]) xs)))"
proof (induction xs)
  case Nil
  show ?case by simp
next
  case (Cons x xs)
  then show ?case by (cases x) simp_all
qed

lemma settle_rejected:
  "\<exists>m. Inl m \<in> set xs \<Longrightarrow> \<exists>m. settle xs = Inl m"
proof (induction xs rule: settle.induct)
  case 1
  then show ?case by simp
next
  case (2 m rest)
  show ?case by simp
next
  case (3 rest)
  then show ?case by simp
next
  case (4 f rest)
  then have "\<exists>m. settle rest = Inl m" by simp
  then show ?case by auto
qed


lemma getFileContent_answer:
  assumes "well_formed p"
  shows "fst (getFileContent w tr r p) =
     (case respond w tr (Get r (Contents p None)) of
        Rejected m \<Rightarrow> Inl m
      | Answered a \<Rightarrow>
          if \<not> ok a then Inr None
          else
            (case body a of
               FileBody d \<Rightarrow>
                 if fd_encoding d = Some (js ''base64'') then
                   (case fd_content d of
                      None \<Rightarrow> Inl (js ''Cannot read properties of undefined (reading '' @ [0x27]
                                 @ js ''replace'' @ [0x27] @ js '')'')
                    | Some c \<Rightarrow>
                        (case atob_utf8 w (filter (\<lambda>u. u \<noteq> 0x0A) c) of
                           Inl m \<Rightarrow> Inl m
                         | Inr s \<Rightarrow> Inr (Some \<lparr>lf_content = s, lf_sha = fd_sha d,
                                                  lf_path = fd_path d\<rparr>)))
                 else Inr None
             | _ \<Rightarrow> Inr None))"
  using assms
  by (simp add: getFileContent_def fetch_def
      split: outcome.splits body.splits option.splits sum.splits)

lemma load_files_indexed:
  assumes "\<forall>p\<in>set ps. well_formed p"
  shows "load_files w tr r ps =
     (settle (map (\<lambda>i. fst (getFileContent w (tr @ map (\<lambda>p. Get r (Contents p None)) (take i ps))
                               r (ps ! i)))
                (sort_key (\<lambda>i. arrival w (tr @ map (\<lambda>p. Get r (Contents p None)) (take i ps))
                                   (Get r (Contents (ps ! i) None)))
                   [0..<length ps])),
      tr @ map (\<lambda>p. Get r (Contents p None)) ps)"
proof -
  have order: "sort_key (\<lambda>i. Suc (arrival w (tr @ map (\<lambda>p. Get r (Contents p None)) (take i ps))
                                   (Get r (Contents (ps ! i) None)))) [0..<length ps]
      = sort_key (\<lambda>i. arrival w (tr @ map (\<lambda>p. Get r (Contents p None)) (take i ps))
                                   (Get r (Contents (ps ! i) None))) [0..<length ps]"
    by (rule sort_key_cong_order) simp
  show ?thesis
    unfolding load_files_def loadPromises_indexed[OF assms]
    by (simp add: sort_key_map order o_def del: upt_Suc)
qed

text \<open>
  A repository read out of order: five paths are selected; the answers arrive in the
  order \<^verbatim>\<open>assets/big.txt\<close>, \<^verbatim>\<open>README.md\<close> and \<^verbatim>\<open>docs\<close>,
  \<^verbatim>\<open>src/index.css\<close>, \<^verbatim>\<open>src/App.tsx\<close>. \<^verbatim>\<open>README.md\<close> is missing,
  \<^verbatim>\<open>docs\<close> is a directory, \<^verbatim>\<open>assets/big.txt\<close> holds 20000 letters and
  \<^verbatim>\<open>docs/manual.pdf\<close> is answered without content (encoding \<^verbatim>\<open>none\<close>).
\<close>

definition shelf :: "path list" where
  "shelf = [js ''src/App.tsx'', js ''README.md'', js ''assets/big.txt'', js ''docs'',
            js ''src/index.css'']"

definition library_world :: world where
  "library_world =
     \<lparr>respond = (\<lambda>tr e. case e of
          Get r (Contents p v) \<Rightarrow>
            if p = js ''src/App.tsx'' then stored p app_content (js ''blob-app'')
            else if p = js ''src/index.css'' then stored p css_content (js ''blob-css'')
            else if p = js ''assets/big.txt'' then stored p big_content (js ''blob-big'')
            else if p = js ''docs'' then Answered \<lparr>status = 200, body = OtherBody\<rparr>
            else if p = js ''docs/manual.pdf'' then
              Answered \<lparr>status = 200,
                body = FileBody \<lparr>fd_encoding = Some (js ''none''), fd_content = Some [],
                                 fd_sha = Some (js ''blob-pdf''), fd_path = Some p\<rparr>\<rparr>
            else not_found
        | _ \<Rightarrow> not_found),
      arrival = (\<lambda>tr e. case e of
          Get r (Contents p v) \<Rightarrow>
            if p = js ''src/App.tsx'' then 30
            else if p = js ''src/index.css'' then 20
            else if p = js ''assets/big.txt'' then 5
            else 10
        | _ \<Rightarrow> 0),
      lovable_api_key = Some (js ''lovable''), toLowerCase = ascii_lower,
      atob_utf8 = demo_decode, btoa_utf8 = (\<lambda>s. s),
      parse_paths = (\<lambda>s. None), parse_changes = (\<lambda>s. None)\<rparr>"

lemma library_decode: "atob_utf8 library_world = demo_decode"
  by (simp add: library_world_def)

definition shelf_outcomes :: "outcome list" where
  "shelf_outcomes =
     [stored (js ''src/App.tsx'') app_content (js ''blob-app''),
      not_found,
      stored (js ''assets/big.txt'') big_content (js ''blob-big''),
      Answered \<lparr>status = 200, body = OtherBody\<rparr>,
      stored (js ''src/index.css'') css_content (js ''blob-css'')]"

lemma shelf_answers:
  "\<forall>i<length shelf.
        respond library_world ([] @ map (\<lambda>p. Get demo_repo (Contents p None)) (take i shelf))
          (Get demo_repo (Contents (shelf ! i) None)) = shelf_outcomes ! i"
  by (simp add: shelf_def All_less_Suc library_world_def shelf_outcomes_def)

lemma shelf_order:
  "sort_key (\<lambda>i. arrival library_world ([] @ map (\<lambda>p. Get demo_repo (Contents p None)) (take i shelf))
                                      (Get demo_repo (Contents (shelf ! i) None)))
                      [0..<length shelf] = [2, 1, 3, 4, 0]"
  by (simp add: shelf_def library_world_def upt_rec)

lemma shelf_decodes:
  "\<not> (\<exists>i<length shelf.
           (\<exists>m. shelf_outcomes ! i = Rejected m)
           \<or> (\<exists>a d. shelf_outcomes ! i = Answered a \<and> ok a \<and> body a = FileBody d
                 \<and> fd_encoding d = Some (js ''base64'')
                 \<and> (fd_content d = None
                      \<or> (\<exists>c m. fd_content d = Some c
                             \<and> atob_utf8 library_world (filter (\<lambda>u. u \<noteq> 0x0A) c) = Inl m))))"
  unfolding library_decode
  by (simp add: shelf_def Ex_less_Suc shelf_outcomes_def stored_def not_found_def
      decode_big decode_app decode_css)

text \<open>A network failure while \<^verbatim>\<open>src/A.tsx\<close> is read.\<close>

definition offline_world :: world where
  "offline_world =
     (project_world (js ''code'') [] not_found)
       \<lparr>respond := (\<lambda>tr e.
          if e = Get demo_repo (Contents (js ''src/A.tsx'') None)
          then Rejected (js ''error sending request'')
          else respond (project_world (js ''code'') [] not_found) tr e)\<rparr>"

text \<open>
  Claim C10, as stated, fails. A path whose request is answered with status 200 and an
  encoding other than \<^verbatim>\<open>base64\<close> is left out of the context although its fetch
  succeeded (line 31 and the \<^verbatim>\<open>return null\<close> at line 40). And a path whose
  request is rejected is not silently excluded: \<^verbatim>\<open>Promise.all\<close> rejects, the
  \<^verbatim>\<open>await\<close> at line 236 throws and the handler answers with status 500, after
  having started the loads of all selected paths.
\<close>

theorem failed_fetch_counterexample:
  "respond library_world [] (Get demo_repo (Contents (js ''docs/manual.pdf'') None)) =
     Answered \<lparr>status = 200,
       body = FileBody \<lparr>fd_encoding = Some (js ''none''), fd_content = Some [],
                        fd_sha = Some (js ''blob-pdf''),
                        fd_path = Some (js ''docs/manual.pdf'')\<rparr>\<rparr>
   \<and> load_files library_world [] demo_repo [js ''docs/manual.pdf''] =
       (Inr [], [Get demo_repo (Contents (js ''docs/manual.pdf'') None)])
   \<and> code_agent offline_world edit_request =
       (Failure 500 (js ''Erro: error sending request''),
        [intent_call (js ''lovable'') edit_request,
         Get demo_repo Repository,
         Get demo_repo (Tree (js ''main'')),
         selection_call (js ''lovable'') project_files edit_request,
         Get demo_repo (Contents (js ''package.json'') None),
         Get demo_repo (Contents (js ''src/A.tsx'') None),
         Get demo_repo (Contents (js ''src/B.tsx'') None)])"
proof -
  have answer: "respond library_world [] (Get demo_repo (Contents (js ''docs/manual.pdf'') None)) =
     Answered \<lparr>status = 200,
       body = FileBody \<lparr>fd_encoding = Some (js ''none''), fd_content = Some [],
                        fd_sha = Some (js ''blob-pdf''),
                        fd_path = Some (js ''docs/manual.pdf'')\<rparr>\<rparr>"
    by (simp add: library_world_def)
  have "well_formed (js ''docs/manual.pdf'')"
    by (simp add: js_def)
  then have excluded: "load_files library_world [] demo_repo [js ''docs/manual.pdf''] =
       (Inr [], [Get demo_repo (Contents (js ''docs/manual.pdf'') None)])"
    by (simp add: load_files_def getFileContent_def fetch_def answer ok_def)
  have wf: "well_formed (js ''package.json'')" "well_formed (js ''src/A.tsx'')"
    "well_formed (js ''src/B.tsx'')"
    by (simp_all add: js_def)
  have offline: "\<And>tr e. respond offline_world tr e =
      (if e = Get demo_repo (Contents (js ''src/A.tsx'') None)
       then Rejected (js ''error sending request'')
       else respond (project_world (js ''code'') [] not_found) tr e)"
    and fields: "lovable_api_key offline_world = Some (js ''lovable'')"
      "toLowerCase offline_world = ascii_lower" "atob_utf8 offline_world = demo_decode"
      "parse_paths offline_world = demo_paths"
      "\<And>tr e. arrival offline_world tr e = length tr"
    by (simp_all add: offline_world_def project_world_def)
  have calls: "intent_call (js ''lovable'') edit_request
        \<noteq> Get demo_repo (Contents (js ''src/A.tsx'') None)"
      "\<And>fs. selection_call (js ''lovable'') fs edit_request
        \<noteq> Get demo_repo (Contents (js ''src/A.tsx'') None)"
    by (simp_all add: intent_call_def selection_call_def)
  have lower: "ascii_lower (trim (js ''code'')) = js ''code''"
    by (simp add: ascii_lower_def trim_def is_space_def js_def)
  have selected: "select_files offline_world project_files (chat_answer (js ''[]''))
     = [js ''package.json'', js ''src/A.tsx'', js ''src/B.tsx'']"
  proof -
    have "selection_answer offline_world (chat_answer (js ''[]''))
        = selection_answer (project_world (js ''code'') [] not_found) (chat_answer (js ''[]''))"
      unfolding selection_answer_def fields project_paths ..
    then have "select_files offline_world project_files (chat_answer (js ''[]''))
        = select_files (project_world (js ''code'') [] not_found) project_files
            (chat_answer (js ''[]''))"
      unfolding select_files_def by simp
    then show ?thesis by (simp only: project_selected)
  qed
  have loads: "\<And>tr. load_files offline_world tr demo_repo
       [js ''package.json'', js ''src/A.tsx'', js ''src/B.tsx''] =
     (Inl (js ''error sending request''),
      tr @ [Get demo_repo (Contents (js ''package.json'') None),
            Get demo_repo (Contents (js ''src/A.tsx'') None),
            Get demo_repo (Contents (js ''src/B.tsx'') None)])"
    by (simp add: load_files_def getFileContent_def fetch_def wf offline fields project_facts
        stored_def ok_def decode_hello del: filter.simps filter_append)
  have repo: "req_repo edit_request = demo_repo" "req_method edit_request \<noteq> js ''OPTIONS''"
    by (simp_all add: edit_request_def)
  have run: "code_agent offline_world edit_request =
       (Failure 500 (js ''Erro: error sending request''),
        [intent_call (js ''lovable'') edit_request,
         Get demo_repo Repository,
         Get demo_repo (Tree (js ''main'')),
         selection_call (js ''lovable'') project_files edit_request,
         Get demo_repo (Contents (js ''package.json'') None),
         Get demo_repo (Contents (js ''src/A.tsx'') None),
         Get demo_repo (Contents (js ''src/B.tsx'') None)])"
    unfolding code_agent_def plan_changes_def code_mode_def getDefaultBranch_def getRepoTree_def
      fetch_def
    by (simp add: repo fields offline calls truthy_def or_else_def project_facts chat_answer_def
        chat_content_def ok_def lower project_blobs selected [unfolded chat_answer_def] loads
        thrown_def js_append [symmetric] del: js_eq_iff)
  show ?thesis
    using answer excluded run by simp
qed


lemma code_mode_loads:
  assumes "\<forall>p\<in>set ps. well_formed p"
    and "r = req_repo rq"
    and "respond w tr0 (Get r Repository) = Answered branchRes" and "ok branchRes"
    and "branch = or_else (case body branchRes of RepoBody b \<Rightarrow> b | _ \<Rightarrow> None) (js ''main'')"
    and "respond w (tr0 @ [Get r Repository]) (Get r (Tree branch)) = Answered treeRes"
    and "ok treeRes"
    and "allFiles = blob_paths (body treeRes)"
    and "respond w (tr0 @ [Get r Repository, Get r (Tree branch)]) (selection_call key allFiles rq)
           = Answered selectionRes"
    and "ps = select_files w allFiles selectionRes"
    and "tr = tr0 @ [Get r Repository, Get r (Tree branch), selection_call key allFiles rq]"
  shows "case fst (load_files w tr r ps) of
           Inl m \<Rightarrow>
             code_mode w tr0 key rq =
               (Inl (Failure 500 (js ''Erro: '' @ m)),
                tr @ map (\<lambda>p. Get r (Contents p None)) ps)
         | Inr fs \<Rightarrow>
             snd (code_mode w tr0 key rq) =
               tr @ map (\<lambda>p. Get r (Contents p None)) ps
                  @ [code_call key branch allFiles (file_context fs) rq]"
proof -
  have effects: "snd (load_files w tr r ps) = tr @ map (\<lambda>p. Get r (Contents p None)) ps"
    using load_files_indexed[OF assms(1), of w tr r] by simp
  obtain res where loaded: "load_files w tr r ps = (res, tr @ map (\<lambda>p. Get r (Contents p None)) ps)"
    using effects by (cases "load_files w tr r ps") simp
  have branch: "getDefaultBranch w tr0 r = (Inr branch, tr0 @ [Get r Repository])"
    using assms(3,4,5) by (simp add: getDefaultBranch_def fetch_def)
  have tree: "getRepoTree w (tr0 @ [Get r Repository]) r branch =
      (Inr (body treeRes), tr0 @ [Get r Repository, Get r (Tree branch)])"
    using assms(6,7) by (simp add: getRepoTree_def fetch_def)
  have selection: "fetch w (tr0 @ [Get r Repository, Get r (Tree branch)])
      (selection_call key (blob_paths (body treeRes)) rq) = (Answered selectionRes, tr)"
    using assms(8,9,11) by (simp add: fetch_def)
  have files: "load_files w tr r (select_files w (blob_paths (body treeRes)) selectionRes)
      = (res, tr @ map (\<lambda>p. Get r (Contents p None)) ps)"
    using loaded assms(8,10) by simp
  show ?thesis
    unfolding code_mode_def assms(2) [symmetric] branch prod.case sum.case tree selection
      outcome.case files
    using assms(8)
    by (cases res) (simp_all add: loaded thrown_def fetch_def split: outcome.splits sum.splits)
qed

text \<open>
  Claim C10, amended. The loads of the selected paths (all well formed) start in the
  order of selection, one \<^verbatim>\<open>GET\<close> each. When a request is rejected, or an answer
  with a success status and encoding \<^verbatim>\<open>base64\<close> has no content or a content that
  does not decode, loading fails with an error. Otherwise loading succeeds, and a path
  contributes a file exactly when its answer has a success status, encoding
  \<^verbatim>\<open>base64\<close> and a decoded content shorter than 20000 code units; a path answered
  with another status or another encoding is silently left out. The files are kept in
  the order in which the answers arrive. The context shows each file as
  \<^verbatim>\<open>=== PATH ===\<close>, a line feed and the content, where \<open>PATH\<close> is the path the
  answer gives, with an empty line between two files. In a run of code mode that has
  read the branch and the tree and has the selector's answer, a failed loading ends the
  run with the reply \<^verbatim>\<open>Erro: MESSAGE\<close> of status 500, and a successful one is
  followed by the call of the generator with that context.
\<close>

theorem context_of_selected_files:
  assumes wf: "\<forall>p\<in>set ps. well_formed p"
    and len: "length outs = length ps"
    and outs: "\<forall>i<length ps.
        respond w (tr @ map (\<lambda>p. Get r (Contents p None)) (take i ps))
          (Get r (Contents (ps ! i) None)) = outs ! i"
  shows "snd (load_files w tr r ps) = tr @ map (\<lambda>p. Get r (Contents p None)) ps
    \<and> ((\<exists>i<length ps.
           (\<exists>m. outs ! i = Rejected m)
           \<or> (\<exists>a d. outs ! i = Answered a \<and> ok a \<and> body a = FileBody d
                 \<and> fd_encoding d = Some (js ''base64'')
                 \<and> (fd_content d = None
                      \<or> (\<exists>c m. fd_content d = Some c
                             \<and> atob_utf8 w (filter (\<lambda>u. u \<noteq> 0x0A) c) = Inl m))))
        \<longrightarrow> (\<exists>m. fst (load_files w tr r ps) = Inl m))
    \<and> (\<not> (\<exists>i<length ps.
           (\<exists>m. outs ! i = Rejected m)
           \<or> (\<exists>a d. outs ! i = Answered a \<and> ok a \<and> body a = FileBody d
                 \<and> fd_encoding d = Some (js ''base64'')
                 \<and> (fd_content d = None
                      \<or> (\<exists>c m. fd_content d = Some c
                             \<and> atob_utf8 w (filter (\<lambda>u. u \<noteq> 0x0A) c) = Inl m))))
        \<longrightarrow> fst (load_files w tr r ps) =
              Inr (concat (map (\<lambda>i.
                     case outs ! i of
                       Rejected m \<Rightarrow> []
                     | Answered a \<Rightarrow>
                         (case body a of
                            FileBody d \<Rightarrow>
                              (case fd_content d of
                                 None \<Rightarrow> []
                               | Some c \<Rightarrow>
                                   (case atob_utf8 w (filter (\<lambda>u. u \<noteq> 0x0A) c) of
                                      Inl m \<Rightarrow> []
                                    | Inr s \<Rightarrow>
                                        if ok a \<and> fd_encoding d = Some (js ''base64'')
                                           \<and> length s < 20000
                                        then [\<lparr>lf_content = s, lf_sha = fd_sha d,
                                               lf_path = fd_path d\<rparr>]
                                        else []))
                          | _ \<Rightarrow> []))
                   (sort_key (\<lambda>i. arrival w (tr @ map (\<lambda>p. Get r (Contents p None)) (take i ps))
                                      (Get r (Contents (ps ! i) None)))
                      [0..<length ps]))))
    \<and> file_context fs =
          join [0x0A, 0x0A]
            (map (\<lambda>f. js ''=== '' @ (case lf_path f of None \<Rightarrow> js ''undefined'' | Some p \<Rightarrow> p)
                        @ js '' ==='' @ [0x0A] @ lf_content f) fs)
    \<and> (\<forall>key rq tr0 branchRes branch treeRes allFiles selectionRes.
          r = req_repo rq
          \<and> respond w tr0 (Get r Repository) = Answered branchRes \<and> ok branchRes
          \<and> branch = or_else (case body branchRes of RepoBody b \<Rightarrow> b | _ \<Rightarrow> None) (js ''main'')
          \<and> respond w (tr0 @ [Get r Repository]) (Get r (Tree branch)) = Answered treeRes
          \<and> ok treeRes
          \<and> allFiles = blob_paths (body treeRes)
          \<and> respond w (tr0 @ [Get r Repository, Get r (Tree branch)])
                (selection_call key allFiles rq) = Answered selectionRes
          \<and> ps = select_files w allFiles selectionRes
          \<and> tr = tr0 @ [Get r Repository, Get r (Tree branch), selection_call key allFiles rq]
        \<longrightarrow> (case fst (load_files w tr r ps) of
               Inl m \<Rightarrow>
                 code_mode w tr0 key rq =
                   (Inl (Failure 500 (js ''Erro: '' @ m)),
                    tr @ map (\<lambda>p. Get r (Contents p None)) ps)
             | Inr loaded \<Rightarrow>
                 snd (code_mode w tr0 key rq) =
                   tr @ map (\<lambda>p. Get r (Contents p None)) ps
                      @ [code_call key branch allFiles (file_context loaded) rq]))"
proof -
  define get where "get = (\<lambda>p. Get r (Contents p None))"
  define before where "before = (\<lambda>i. tr @ map get (take i ps))"
  define order where "order = sort_key (\<lambda>i. arrival w (before i) (get (ps ! i))) [0..<length ps]"
  define result where "result = (\<lambda>i. fst (getFileContent w (before i) r (ps ! i)))"
  define throws where "throws = (\<lambda>i.
           (\<exists>m. outs ! i = Rejected m)
           \<or> (\<exists>a d. outs ! i = Answered a \<and> ok a \<and> body a = FileBody d
                 \<and> fd_encoding d = Some (js ''base64'')
                 \<and> (fd_content d = None
                      \<or> (\<exists>c m. fd_content d = Some c
                             \<and> atob_utf8 w (filter (\<lambda>u. u \<noteq> 0x0A) c) = Inl m))))"
  define fulfilled where "fulfilled = (\<lambda>i.
                     case outs ! i of
                       Rejected m \<Rightarrow> None
                     | Answered a \<Rightarrow>
                         (case body a of
                            FileBody d \<Rightarrow>
                              (case fd_content d of
                                 None \<Rightarrow> None
                               | Some c \<Rightarrow>
                                   (case atob_utf8 w (filter (\<lambda>u. u \<noteq> 0x0A) c) of
                                      Inl m \<Rightarrow> None
                                    | Inr s \<Rightarrow>
                                        if ok a \<and> fd_encoding d = Some (js ''base64'')
                                        then Some \<lparr>lf_content = s, lf_sha = fd_sha d,
                                               lf_path = fd_path d\<rparr>
                                        else None))
                          | _ \<Rightarrow> None))"
  have loaded: "load_files w tr r ps = (settle (map result order), tr @ map get ps)"
    unfolding result_def order_def before_def get_def by (rule load_files_indexed[OF wf])
  have order_set: "set order = {0..<length ps}"
    by (simp add: order_def)
  have result_of: "result i =
     (case outs ! i of
        Rejected m \<Rightarrow> Inl m
      | Answered a \<Rightarrow>
          if \<not> ok a then Inr None
          else
            (case body a of
               FileBody d \<Rightarrow>
                 if fd_encoding d = Some (js ''base64'') then
                   (case fd_content d of
                      None \<Rightarrow> Inl (js ''Cannot read properties of undefined (reading '' @ [0x27]
                                 @ js ''replace'' @ [0x27] @ js '')'')
                    | Some c \<Rightarrow>
                        (case atob_utf8 w (filter (\<lambda>u. u \<noteq> 0x0A) c) of
                           Inl m \<Rightarrow> Inl m
                         | Inr s \<Rightarrow> Inr (Some \<lparr>lf_content = s, lf_sha = fd_sha d,
                                                  lf_path = fd_path d\<rparr>)))
                 else Inr None
             | _ \<Rightarrow> Inr None))" if "i < length ps" for i
  proof -
    have "well_formed (ps ! i)" using wf that by simp
    then show ?thesis
      unfolding result_def before_def get_def
      using outs that by (simp add: getFileContent_answer)
  qed
  have thrown: "\<exists>m. result i = Inl m" if "i < length ps" and "throws i" for i
    using that(2) unfolding throws_def result_of[OF that(1)]
    by (auto split: outcome.splits body.splits option.splits sum.splits)
  have kept: "result i = Inr (fulfilled i)" if "i < length ps" and "\<not> throws i" for i
    using that(2) unfolding throws_def result_of[OF that(1)] fulfilled_def
    by (auto split: outcome.splits body.splits option.splits sum.splits)
  have failing: "\<exists>m. fst (load_files w tr r ps) = Inl m" if "\<exists>i<length ps. throws i"
  proof -
    from that obtain i where i: "i < length ps" "throws i" by blast
    then obtain m where "result i = Inl m" using thrown by blast
    moreover have "i \<in> set order" using i(1) order_set by simp
    ultimately have "\<exists>m. Inl m \<in> set (map result order)" by force
    then show ?thesis unfolding loaded by (simp add: settle_rejected)
  qed
  have passing: "fst (load_files w tr r ps) =
      Inr (concat (map (\<lambda>i. case fulfilled i of None \<Rightarrow> []
                             | Some f \<Rightarrow> if length (lf_content f) < 20000 then [f] else []) order))"
    if "\<not> (\<exists>i<length ps. throws i)"
  proof -
    have "map result order = map Inr (map fulfilled order)"
      using that kept order_set by auto
    then have "settle (map result order) =
        Inr (filter (\<lambda>f. length (lf_content f) < 20000)
              (concat (map (\<lambda>x. case x of None \<Rightarrow> [] | Some f \<Rightarrow> [f]) (map fulfilled order))))"
      by (simp only: settle_fulfilled)
    also have "filter (\<lambda>f. length (lf_content f) < 20000)
              (concat (map (\<lambda>x. case x of None \<Rightarrow> [] | Some f \<Rightarrow> [f]) (map fulfilled order)))
        = concat (map (\<lambda>i. case fulfilled i of None \<Rightarrow> []
                             | Some f \<Rightarrow> if length (lf_content f) < 20000 then [f] else []) order)"
      by (induction order) (simp_all split: option.splits)
    finally show ?thesis unfolding loaded by simp
  qed
  have shape: "(case fulfilled i of None \<Rightarrow> []
                | Some f \<Rightarrow> if length (lf_content f) < 20000 then [f] else []) =
      (case outs ! i of
                       Rejected m \<Rightarrow> []
                     | Answered a \<Rightarrow>
                         (case body a of
                            FileBody d \<Rightarrow>
                              (case fd_content d of
                                 None \<Rightarrow> []
                               | Some c \<Rightarrow>
                                   (case atob_utf8 w (filter (\<lambda>u. u \<noteq> 0x0A) c) of
                                      Inl m \<Rightarrow> []
                                    | Inr s \<Rightarrow>
                                        if ok a \<and> fd_encoding d = Some (js ''base64'')
                                           \<and> length s < 20000
                                        then [\<lparr>lf_content = s, lf_sha = fd_sha d,
                                               lf_path = fd_path d\<rparr>]
                                        else []))
                          | _ \<Rightarrow> []))" for i
    unfolding fulfilled_def
    by (simp split: outcome.splits body.splits option.splits sum.splits)
  have assembled: "file_context fs =
          join [0x0A, 0x0A]
            (map (\<lambda>f. js ''=== '' @ (case lf_path f of None \<Rightarrow> js ''undefined'' | Some p \<Rightarrow> p)
                        @ js '' ==='' @ [0x0A] @ lf_content f) fs)"
    by (simp add: file_context_def interpolated_def)
  have trace: "snd (load_files w tr r ps) = tr @ map (\<lambda>p. Get r (Contents p None)) ps"
    unfolding loaded get_def by simp
  have reached: "\<forall>key rq tr0 branchRes branch treeRes allFiles selectionRes.
          r = req_repo rq
          \<and> respond w tr0 (Get r Repository) = Answered branchRes \<and> ok branchRes
          \<and> branch = or_else (case body branchRes of RepoBody b \<Rightarrow> b | _ \<Rightarrow> None) (js ''main'')
          \<and> respond w (tr0 @ [Get r Repository]) (Get r (Tree branch)) = Answered treeRes
          \<and> ok treeRes
          \<and> allFiles = blob_paths (body treeRes)
          \<and> respond w (tr0 @ [Get r Repository, Get r (Tree branch)])
                (selection_call key allFiles rq) = Answered selectionRes
          \<and> ps = select_files w allFiles selectionRes
          \<and> tr = tr0 @ [Get r Repository, Get r (Tree branch), selection_call key allFiles rq]
        \<longrightarrow> (case fst (load_files w tr r ps) of
               Inl m \<Rightarrow>
                 code_mode w tr0 key rq =
                   (Inl (Failure 500 (js ''Erro: '' @ m)),
                    tr @ map (\<lambda>p. Get r (Contents p None)) ps)
             | Inr loaded \<Rightarrow>
                 snd (code_mode w tr0 key rq) =
                   tr @ map (\<lambda>p. Get r (Contents p None)) ps
                      @ [code_call key branch allFiles (file_context loaded) rq])"
    using code_mode_loads [OF wf] by blast
  have first: "snd (load_files w tr r ps) = tr @ map (\<lambda>p. Get r (Contents p None)) ps
    \<and> ((\<exists>i<length ps. throws i) \<longrightarrow> (\<exists>m. fst (load_files w tr r ps) = Inl m))
    \<and> (\<not> (\<exists>i<length ps. throws i) \<longrightarrow>
          fst (load_files w tr r ps) =
            Inr (concat (map (\<lambda>i. case fulfilled i of None \<Rightarrow> []
                             | Some f \<Rightarrow> if length (lf_content f) < 20000 then [f] else []) order)))
    \<and> file_context fs =
          join [0x0A, 0x0A]
            (map (\<lambda>f. js ''=== '' @ (case lf_path f of None \<Rightarrow> js ''undefined'' | Some p \<Rightarrow> p)
                        @ js '' ==='' @ [0x0A] @ lf_content f) fs)"
    using trace failing passing assembled by blast
  note loading = first [unfolded shape throws_def order_def before_def get_def]
  show ?thesis
    apply (intro conjI)
        apply (rule loading [THEN conjunct1])
       apply (rule loading [THEN conjunct2, THEN conjunct1])
      apply (rule loading [THEN conjunct2, THEN conjunct2, THEN conjunct1])
     apply (rule loading [THEN conjunct2, THEN conjunct2, THEN conjunct2])
    apply (rule reached)
    done
qed


theorem context_of_selected_files_witness:
  "load_files library_world [] demo_repo shelf =
     (Inr [\<lparr>lf_content = js ''body{}'', lf_sha = Some (js ''blob-css''),
            lf_path = Some (js ''src/index.css'')\<rparr>,
           \<lparr>lf_content = js ''App'', lf_sha = Some (js ''blob-app''),
            lf_path = Some (js ''src/App.tsx'')\<rparr>],
      [Get demo_repo (Contents (js ''src/App.tsx'') None),
       Get demo_repo (Contents (js ''README.md'') None),
       Get demo_repo (Contents (js ''assets/big.txt'') None),
       Get demo_repo (Contents (js ''docs'') None),
       Get demo_repo (Contents (js ''src/index.css'') None)])
   \<and> file_context [\<lparr>lf_content = js ''body{}'', lf_sha = Some (js ''blob-css''),
                     lf_path = Some (js ''src/index.css'')\<rparr>,
                    \<lparr>lf_content = js ''App'', lf_sha = Some (js ''blob-app''),
                     lf_path = Some (js ''src/App.tsx'')\<rparr>] =
       js ''=== src/index.css ==='' @ [0x0A] @ js ''body{}'' @ [0x0A, 0x0A]
       @ js ''=== src/App.tsx ==='' @ [0x0A] @ js ''App''"
proof -
  have wf: "\<forall>p\<in>set shelf. well_formed p"
    by (simp add: shelf_def js_def)
  have len: "length shelf_outcomes = length shelf"
    by (simp add: shelf_outcomes_def shelf_def)
  note run = context_of_selected_files [OF wf len shelf_answers,
        of "[\<lparr>lf_content = js ''body{}'', lf_sha = Some (js ''blob-css''),
             lf_path = Some (js ''src/index.css'')\<rparr>,
            \<lparr>lf_content = js ''App'', lf_sha = Some (js ''blob-app''),
             lf_path = Some (js ''src/App.tsx'')\<rparr>]"]
  have effects: "snd (load_files library_world [] demo_repo shelf) =
      [Get demo_repo (Contents (js ''src/App.tsx'') None),
       Get demo_repo (Contents (js ''README.md'') None),
       Get demo_repo (Contents (js ''assets/big.txt'') None),
       Get demo_repo (Contents (js ''docs'') None),
       Get demo_repo (Contents (js ''src/index.css'') None)]"
    using run [THEN conjunct1] by (simp add: shelf_def)
  have files: "fst (load_files library_world [] demo_repo shelf) =
      Inr [\<lparr>lf_content = js ''body{}'', lf_sha = Some (js ''blob-css''),
            lf_path = Some (js ''src/index.css'')\<rparr>,
           \<lparr>lf_content = js ''App'', lf_sha = Some (js ''blob-app''),
            lf_path = Some (js ''src/App.tsx'')\<rparr>]"
    using run [THEN conjunct2, THEN conjunct2, THEN conjunct1, THEN mp, OF shelf_decodes]
    unfolding shelf_order library_decode
    by (simp add: shelf_outcomes_def stored_def not_found_def ok_def
        decode_big decode_app decode_css)
  have assembled: "file_context [\<lparr>lf_content = js ''body{}'', lf_sha = Some (js ''blob-css''),
                     lf_path = Some (js ''src/index.css'')\<rparr>,
                    \<lparr>lf_content = js ''App'', lf_sha = Some (js ''blob-app''),
                     lf_path = Some (js ''src/App.tsx'')\<rparr>] =
       js ''=== src/index.css ==='' @ [0x0A] @ js ''body{}'' @ [0x0A, 0x0A]
       @ js ''=== src/App.tsx ==='' @ [0x0A] @ js ''App''"
    using run [THEN conjunct2, THEN conjunct2, THEN conjunct2, THEN conjunct1]
    by (simp add: js_def)
  show ?thesis
    using effects files assembled by (simp add: prod_eq_iff)
qed


section \<open>The agent writes only after the safety check\<close>

lemma loadPromises_trace:
  "snd (loadPromises w tr r ps) = tr @ map (\<lambda>p. Get r (Contents p None)) (filter well_formed ps)"
proof (induction ps arbitrary: tr)
  case Nil
  show ?case by simp
next
  case (Cons p ps)
  show ?case
  proof (cases "well_formed p")
    case True
    obtain settled where "getFileContent w tr r p = (settled, tr @ [Get r (Contents p None)])"
      using getFileContent_trace[OF True, of w tr r] by (cases "getFileContent w tr r p") simp
    then show ?thesis
      using True Cons.IH[of "tr @ [Get r (Contents p None)]"]
      by (auto split: prod.splits)
  next
    case False
    then show ?thesis
      using Cons.IH[of tr] by (auto simp: getFileContent_malformed split: prod.splits)
  qed
qed

lemma load_files_puts: "filter is_put (snd (load_files w tr r ps)) = filter is_put tr"
proof -
  have "snd (load_files w tr r ps) = snd (loadPromises w tr r ps)"
    by (simp add: load_files_def split: prod.splits)
  then show ?thesis
    by (simp add: loadPromises_trace is_put_def filter_empty_conv)
qed

lemma chat_mode_trace: "snd (chat_mode w tr key rq) = tr @ [chat_call key rq]"
  by (simp add: chat_mode_def fetch_def split: outcome.splits)

lemma chat_mode_puts: "filter is_put (snd (chat_mode w tr key rq)) = filter is_put tr"
  by (simp add: chat_mode_trace is_put_def chat_call_def)

lemma code_mode_puts: "filter is_put (snd (code_mode w tr key rq)) = filter is_put tr"
proof -
  have loads: "filter is_put tr4 = filter is_put tr3"
    if "load_files w tr3 r ps = (res, tr4)" for tr3 tr4 r ps res
    using load_files_puts[of w tr3 r ps] that by simp
  show ?thesis
    by (auto simp: code_mode_def getDefaultBranch_def getRepoTree_def fetch_def is_put_def
        selection_call_def code_call_def dest!: loads
        split: prod.splits sum.splits outcome.splits)
qed

lemma plan_changes_puts: "filter is_put (snd (plan_changes w rq)) = []"
proof -
  have chat: "filter is_put tr2 = filter is_put tr1"
    if "chat_mode w tr1 key rq = (rp, tr2)" for tr1 tr2 key rp
    using chat_mode_puts[of w tr1 key rq] that by simp
  show ?thesis
    using code_mode_puts[of w "[intent_call (or_else (lovable_api_key w) []) rq]"
        "or_else (lovable_api_key w) []" rq]
    by (auto simp: plan_changes_def fetch_def is_put_def intent_call_def dest!: chat
        split: prod.splits outcome.splits)
qed

section \<open>Critical-file protection\<close>

lemma empties_iff:
  "empties v \<longleftrightarrow> (v = None \<or> (\<exists>s. v = Some s \<and> length (trim s) < 10))"
  by (auto simp: empties_def trim_def split: option.splits)

lemma safety_check_finds:
  "c \<in> set cs \<Longrightarrow> ch_path c = Some p \<Longrightarrow> p \<in> set criticalFiles \<Longrightarrow> empties (ch_content c)
     \<Longrightarrow> \<exists>q. safety_check cs = Some q"
  by (induction cs) (auto split: option.splits)

lemma safety_check_names_offender:
  "safety_check cs = Some q \<Longrightarrow>
     q \<in> set criticalFiles \<and> (\<exists>c \<in> set cs. ch_path c = Some q \<and> empties (ch_content c))"
  by (induction cs) (auto split: option.splits if_splits)

text \<open>
  Claim C1. When the change set the generator returned has been parsed and one of its
  changes names a critical file with content that is missing or, after
  \<^verbatim>\<open>trim()\<close>, shorter than 10 code units, the agent answers with the refusal
  \<^verbatim>\<open>Nao posso modificar PATH dessa forma\<close> (with its accents and warning sign, spelled
  out below), where \<open>PATH\<close> is the path of such a change, with no changed file and no
  commit identifier. The run ends with the trace it had when the change set was parsed,
  and that trace holds no \<^verbatim>\<open>PUT\<close>: \<^verbatim>\<open>commitFile\<close> runs for no change of the set.
\<close>

theorem critical_file_protection:
  assumes "req_method rq \<noteq> js ''OPTIONS''"
    and "plan_changes w rq = (Inr (branch, parsed), tr)"
    and "changes parsed = Some cs"
    and "c \<in> set cs" and "ch_path c = Some p" and "p \<in> set criticalFiles"
    and "ch_content c = None \<or> (\<exists>s. ch_content c = Some s \<and> length (trim s) < 10)"
  shows "\<exists>q. code_agent w rq =
               (Reply \<lparr>response = [0x26A0, 0xFE0F] @ js '' N'' @ [0xE3] @ js ''o posso modificar ''
                          @ q @ js '' dessa forma - '' @ [0xE9] @ js '' um arquivo cr'' @ [0xED]
                          @ js ''tico do projeto. Me diz exatamente o que quer mudar nele?'',
                       files_changed = [], commit_sha = None, commit_message = None\<rparr>, tr)
             \<and> q \<in> set criticalFiles
             \<and> (\<exists>c' \<in> set cs. ch_path c' = Some q
                    \<and> (ch_content c' = None
                         \<or> (\<exists>s. ch_content c' = Some s \<and> length (trim s) < 10)))
             \<and> filter is_put (snd (code_agent w rq)) = []"
proof -
  from assms(7) have "empties (ch_content c)" by (simp add: empties_iff)
  with assms obtain q where q: "safety_check cs = Some q"
    using safety_check_finds by blast
  from assms(4) have "cs \<noteq> []" by auto
  with q assms(1,2,3) have run: "code_agent w rq =
      (Reply \<lparr>response = [0x26A0, 0xFE0F] @ js '' N'' @ [0xE3] @ js ''o posso modificar ''
                          @ q @ js '' dessa forma - '' @ [0xE9] @ js '' um arquivo cr'' @ [0xED]
                          @ js ''tico do projeto. Me diz exatamente o que quer mudar nele?'',
              files_changed = [], commit_sha = None, commit_message = None\<rparr>, tr)"
    by (simp add: code_agent_def review_and_commit_def no_changes_def)
  from plan_changes_puts[of w rq] assms(2) have "filter is_put tr = []" by simp
  with run safety_check_names_offender[OF q] show ?thesis
    by (auto simp: empties_iff)
qed

lemma strip_blanking:
  "strip_code_fences (json_changes blanking_edits) = json_changes blanking_edits"
  by (simp add: strip_code_fences_def json_changes_def blanking_edits_def quoted_def fence_def
      trim_def is_space_def drop_line_feed_def js_def)

lemma read_blanking:
  "read_changes (project_world intent (json_changes blanking_edits) chat)
      (chat_answer (json_changes blanking_edits)) = Inr (parsed_changes blanking_edits)"
proof -
  have "json_changes blanking_edits \<noteq> []"
    by (simp add: json_changes_def js_def)
  then show ?thesis
    by (simp add: read_changes_def chat_answer_def ok_def chat_content_def or_else_def
        strip_blanking project_parse demo_changes_def)
qed

theorem critical_file_protection_witness:
  "plan_changes (project_world (js ''Code'' @ [0x0A]) (json_changes blanking_edits) not_found)
       edit_request = (Inr (js ''main'', parsed_changes blanking_edits), project_reads)
   \<and> changes (parsed_changes blanking_edits) =
       Some [\<lparr>ch_path = Some (js ''src/A.tsx''), ch_action = None,
               ch_content = Some (js ''export const a = 1'')\<rparr>,
             \<lparr>ch_path = Some (js ''package.json''), ch_action = None,
               ch_content = Some ([0xA0, 0xA0, 0xA0, 0xA0, 0xA0, 0xA0, 0xA0, 0xA0, 0xA0, 0xA0, 0xA0, 0xA0])\<rparr>]
   \<and> length (trim ([0xA0, 0xA0, 0xA0, 0xA0, 0xA0, 0xA0, 0xA0, 0xA0, 0xA0, 0xA0, 0xA0, 0xA0])) < 10
   \<and> code_agent (project_world (js ''Code'' @ [0x0A]) (json_changes blanking_edits) not_found)
            edit_request =
       (Reply \<lparr>response = [0x26A0, 0xFE0F] @ js '' N'' @ [0xE3]
                  @ js ''o posso modificar package.json dessa forma - '' @ [0xE9]
                  @ js '' um arquivo cr'' @ [0xED]
                  @ js ''tico do projeto. Me diz exatamente o que quer mudar nele?'',
               files_changed = [], commit_sha = None, commit_message = None\<rparr>,
        project_reads)
   \<and> filter is_put project_reads = []"
proof -
  let ?w = "project_world (js ''Code'' @ [0x0A]) (json_changes blanking_edits) not_found"
  let ?c = "\<lparr>ch_path = Some (js ''package.json''), ch_action = None,
             ch_content = Some ([0xA0, 0xA0, 0xA0, 0xA0, 0xA0, 0xA0, 0xA0, 0xA0, 0xA0, 0xA0, 0xA0, 0xA0])\<rparr>"
  let ?cs = "[\<lparr>ch_path = Some (js ''src/A.tsx''), ch_action = None,
                ch_content = Some (js ''export const a = 1'')\<rparr>, ?c]"
  have short: "length (trim ([0xA0, 0xA0, 0xA0, 0xA0, 0xA0, 0xA0, 0xA0, 0xA0, 0xA0, 0xA0, 0xA0, 0xA0])) < 10"
    by (simp add: trim_def is_space_def)
  have plan: "plan_changes ?w edit_request =
      (Inr (js ''main'', parsed_changes blanking_edits), project_reads)"
    by (simp add: project_plan read_blanking)
  have cs: "changes (parsed_changes blanking_edits) = Some ?cs"
    by (simp add: parsed_changes_def blanking_edits_def)
  have posted: "req_method edit_request \<noteq> js ''OPTIONS''"
    by (simp add: edit_request_def)
  have critical: "js ''package.json'' \<in> set criticalFiles"
    by (simp add: criticalFiles_def)
  have blank: "ch_content ?c = None
      \<or> (\<exists>s. ch_content ?c = Some s \<and> length (trim s) < 10)"
    using short by simp
  obtain q where run: "code_agent ?w edit_request =
               (Reply \<lparr>response = [0x26A0, 0xFE0F] @ js '' N'' @ [0xE3] @ js ''o posso modificar ''
                          @ q @ js '' dessa forma - '' @ [0xE9] @ js '' um arquivo cr'' @ [0xED]
                          @ js ''tico do projeto. Me diz exatamente o que quer mudar nele?'',
                       files_changed = [], commit_sha = None, commit_message = None\<rparr>,
                project_reads)"
    and crit: "q \<in> set criticalFiles"
    and offender: "\<exists>c' \<in> set ?cs. ch_path c' = Some q"
    and quiet: "filter is_put (snd (code_agent ?w edit_request)) = []"
    using critical_file_protection [OF posted plan cs _ _ critical blank] by auto
  from crit offender have "q = js ''package.json''"
    by (auto simp: criticalFiles_def)
  with run quiet short plan cs show ?thesis
    by (simp add: js_append [symmetric] del: js_eq_iff)
qed


section \<open>The conversational branch\<close>

definition greeting :: agent_request where
  "greeting = \<lparr>req_method = js ''POST'', req_message = js ''oi tudo bem?'',
                req_repo = demo_repo, req_history = []\<rparr>"

lemma intent_Chat: "ascii_lower (trim (js '' Chat '')) = js ''chat''"
  by (simp add: ascii_lower_def trim_def is_space_def js_def)

text \<open>
  Claim C2, as stated, fails in its last part. With the classifier answering
  \<^verbatim>\<open>Chat\<close> and the conversational call answered with status 429, the agent returns
  \<^verbatim>\<open>{error: ...}\<close> with status 429 (line 161): a reply with no \<^verbatim>\<open>files_changed\<close>
  list and no commit identifier at all.
\<close>

theorem chat_failure_counterexample:
  "toLowerCase (project_world (js '' Chat '') [] (Answered \<lparr>status = 429, body = OtherBody\<rparr>))
      (trim (js '' Chat '')) \<noteq> js ''code''
   \<and> code_agent (project_world (js '' Chat '') [] (Answered \<lparr>status = 429, body = OtherBody\<rparr>))
         greeting =
       (Failure 429 (js ''Muitas requisi'' @ [0xE7, 0xF5] @ js ''es, espera um pouquinho! ''
                     @ [0xD83D, 0xDE05]),
        [intent_call (js ''lovable'') greeting, chat_call (js ''lovable'') greeting])"
proof -
  have posted: "req_method greeting \<noteq> js ''OPTIONS''"
    by (simp add: greeting_def)
  show ?thesis
    unfolding code_agent_def plan_changes_def chat_mode_def fetch_def
    by (simp add: posted project_facts intent_Chat truthy_def or_else_def chat_answer_def
        chat_content_def ok_def)
qed

text \<open>
  Claim C2, amended. When the classifier's answer, after \<^verbatim>\<open>trim()\<close> and
  \<^verbatim>\<open>toLowerCase()\<close>, is not \<^verbatim>\<open>code\<close>, the agent takes the conversational branch:
  its only effects are the classification call and the conversational call, so no
  \<^verbatim>\<open>PUT\<close> is sent. When the conversational call succeeds the reply carries the answer
  (or the fixed apology when there is none), an empty \<^verbatim>\<open>files_changed\<close> list and no
  commit identifier. When it does not, the reply is an error: status 429 or 402 with
  the fixed texts of lines 161-162 for these two statuses, status 500 with
  \<^verbatim>\<open>Erro: Erro na IA\<close> for any other status, and status 500 with the message of the
  error when the request is rejected.
\<close>

theorem chat_branch_never_writes:
  assumes "req_method rq \<noteq> js ''OPTIONS''"
    and "lovable_api_key w = Some key" and "key \<noteq> []"
    and "respond w [] (intent_call key rq) = Answered intentRes"
    and "ok intentRes"
    and "toLowerCase w (trim (or_else (chat_content intentRes) [])) \<noteq> js ''code''"
  shows "snd (code_agent w rq) = [intent_call key rq, chat_call key rq]
         \<and> filter is_put (snd (code_agent w rq)) = []
         \<and> fst (code_agent w rq) =
             (case respond w [intent_call key rq] (chat_call key rq) of
                Rejected m \<Rightarrow> Failure 500 (js ''Erro: '' @ m)
              | Answered chatRes \<Rightarrow>
                  if ok chatRes then
                    Reply \<lparr>response = or_else (chat_content chatRes)
                                        (js ''Desculpa, n'' @ [0xE3] @ js ''o entendi. Pode repetir?''),
                           files_changed = [], commit_sha = None, commit_message = None\<rparr>
                  else if status chatRes = 429 then
                    Failure 429 (js ''Muitas requisi'' @ [0xE7, 0xF5]
                                 @ js ''es, espera um pouquinho! '' @ [0xD83D, 0xDE05])
                  else if status chatRes = 402 then
                    Failure 402 (js ''Cr'' @ [0xE9] @ js ''ditos esgotados '' @ [0xD83D, 0xDE22])
                  else Failure 500 (js ''Erro: Erro na IA''))"
proof -
  have key: "truthy (lovable_api_key w)" "or_else (lovable_api_key w) [] = key"
    using assms(2,3) by (simp_all add: truthy_def or_else_def)
  have plan: "plan_changes w rq =
      (Inl (fst (chat_mode w [intent_call key rq] key rq)),
       snd (chat_mode w [intent_call key rq] key rq))"
    using assms(4,5,6) key by (simp add: plan_changes_def fetch_def split: prod.splits)
  then have run: "code_agent w rq = chat_mode w [intent_call key rq] key rq"
    using assms(1) by (simp add: code_agent_def)
  have effects: "snd (code_agent w rq) = [intent_call key rq, chat_call key rq]"
    by (simp add: run chat_mode_trace)
  have quiet: "filter is_put (snd (code_agent w rq)) = []"
    by (simp add: effects intent_call_def chat_call_def is_put_def)
  have answer: "fst (code_agent w rq) =
             (case respond w [intent_call key rq] (chat_call key rq) of
                Rejected m \<Rightarrow> Failure 500 (js ''Erro: '' @ m)
              | Answered chatRes \<Rightarrow>
                  if ok chatRes then
                    Reply \<lparr>response = or_else (chat_content chatRes)
                                        (js ''Desculpa, n'' @ [0xE3] @ js ''o entendi. Pode repetir?''),
                           files_changed = [], commit_sha = None, commit_message = None\<rparr>
                  else if status chatRes = 429 then
                    Failure 429 (js ''Muitas requisi'' @ [0xE7, 0xF5]
                                 @ js ''es, espera um pouquinho! '' @ [0xD83D, 0xDE05])
                  else if status chatRes = 402 then
                    Failure 402 (js ''Cr'' @ [0xE9] @ js ''ditos esgotados '' @ [0xD83D, 0xDE22])
                  else Failure 500 (js ''Erro: Erro na IA''))"
    by (simp add: run chat_mode_def fetch_def no_changes_def thrown_def js_append [symmetric]
        split: outcome.splits)
  show ?thesis
    using effects quiet answer by simp
qed

theorem chat_branch_never_writes_witness:
  "respond (project_world (js '' Chat '') []
              (Answered \<lparr>status = 200, body = ChatBody (Some (js ''Oi!''))\<rparr>)) []
       (intent_call (js ''lovable'') greeting) = Answered (chat_answer (js '' Chat ''))
   \<and> ascii_lower (trim (js '' Chat '')) \<noteq> js ''code''
   \<and> code_agent (project_world (js '' Chat '') []
                    (Answered \<lparr>status = 200, body = ChatBody (Some (js ''Oi!''))\<rparr>)) greeting =
       (Reply \<lparr>response = js ''Oi!'', files_changed = [], commit_sha = None,
               commit_message = None\<rparr>,
        [intent_call (js ''lovable'') greeting, chat_call (js ''lovable'') greeting])"
proof -
  let ?w = "project_world (js '' Chat '') []
              (Answered \<lparr>status = 200, body = ChatBody (Some (js ''Oi!''))\<rparr>)"
  have posted: "req_method greeting \<noteq> js ''OPTIONS''"
    by (simp add: greeting_def)
  have key: "js ''lovable'' \<noteq> []"
    by simp
  have answered: "ok (chat_answer (js '' Chat ''))"
    by (simp add: chat_answer_def ok_def)
  have conversation: "toLowerCase ?w (trim (or_else (chat_content (chat_answer (js '' Chat ''))) []))
      \<noteq> js ''code''"
    by (simp add: project_lower chat_answer_def chat_content_def or_else_def intent_Chat)
  show ?thesis
    using chat_branch_never_writes [OF posted project_key key project_intent answered conversation]
    by (simp add: project_facts intent_Chat ok_def chat_content_def or_else_def prod_eq_iff)
qed

section \<open>The commit loop\<close>

lemma commit_step_written:
  assumes valid: "ch_path c = Some p" "p \<noteq> []" "ch_content c = Some content" "content \<noteq> []"
    and wf: "well_formed p" "well_formed content"
    and fresh: "respond w (cs_trace st) (Get r (Contents p None)) = Answered fresh"
    and readable: "\<forall>d. ok fresh \<and> body fresh = FileBody d \<and> fd_encoding d = Some (js ''base64'')
             \<longrightarrow> (\<exists>c0 s. fd_content d = Some c0
                    \<and> atob_utf8 w (filter (\<lambda>u. u \<noteq> 0x0A) c0) = Inr s)"
    and marker: "marker =
        (case body fresh of
           FileBody d \<Rightarrow>
             if ok fresh \<and> fd_encoding d = Some (js ''base64'') then or_null (fd_sha d) else None
         | _ \<Rightarrow> None)"
    and written: "respond w (cs_trace st @ [Get r (Contents p None)])
        (Put r p \<lparr>put_message = msg, put_content = btoa_utf8 w content, put_sha = marker,
                  put_branch = Some branch\<rparr>) = Answered written"
  shows "commit_step w r branch msg st c =
     (if ok written then
        st\<lparr>cs_trace := cs_trace st @ [Get r (Contents p None),
               Put r p \<lparr>put_message = msg, put_content = btoa_utf8 w content, put_sha = marker,
                        put_branch = Some branch\<rparr>],
           lastCommitSha := or_null (case body written of PutBody s \<Rightarrow> s | _ \<Rightarrow> None),
           filesChanged := filesChanged st @ [p]\<rparr>
      else
        st\<lparr>cs_trace := cs_trace st @ [Get r (Contents p None),
               Put r p \<lparr>put_message = msg, put_content = btoa_utf8 w content, put_sha = marker,
                        put_branch = Some branch\<rparr>],
           errors := errors st @ [p @ js '': Falha ao salvar '' @ p @ js '' no GitHub (status ''
                                  @ show_nat (status written) @ js '')'']\<rparr>)"
proof -
  have path: "truthy (ch_path c)" "or_else (ch_path c) [] = p"
    and content: "truthy (ch_content c)" "or_else (ch_content c) [] = content"
    using valid by (simp_all add: truthy_def or_else_def)
  obtain freshFile where read: "getFileContent w (cs_trace st) r p =
      (Inr freshFile, cs_trace st @ [Get r (Contents p None)])"
    and sha: "(case freshFile of None \<Rightarrow> None | Some f \<Rightarrow> or_null (lf_sha f)) = marker"
  proof (cases "ok fresh \<and> (\<exists>d. body fresh = FileBody d \<and> fd_encoding d = Some (js ''base64''))")
    case True
    then obtain d where d: "ok fresh" "body fresh = FileBody d"
        "fd_encoding d = Some (js ''base64'')" by blast
    with readable obtain c0 s where "fd_content d = Some c0"
        "atob_utf8 w (filter (\<lambda>u. u \<noteq> 0x0A) c0) = Inr s" by blast
    with d fresh wf(1) marker that [of "Some \<lparr>lf_content = s, lf_sha = fd_sha d, lf_path = fd_path d\<rparr>"]
    show ?thesis
      by (simp add: getFileContent_def fetch_def)
  next
    case False
    with fresh wf(1) marker that [of None] show ?thesis
      by (auto simp: getFileContent_def fetch_def split: body.splits)
  qed
  have fixed: "(if truthy marker then marker else None) = marker"
    unfolding marker
    by (simp add: truthy_def or_null_def split: body.splits option.splits)
  have wording: "\<And>x. js '': '' @ js ''Falha ao salvar '' @ x = js '': Falha ao salvar '' @ x"
    by (simp add: js_def)
  have saved: "commitFile w (cs_trace st @ [Get r (Contents p None)]) r p content marker msg branch =
      (if ok written then Inr (body written)
       else Inl (js ''Falha ao salvar '' @ p @ js '' no GitHub (status ''
                 @ show_nat (status written) @ js '')''),
       cs_trace st @ [Get r (Contents p None),
          Put r p \<lparr>put_message = msg, put_content = btoa_utf8 w content, put_sha = marker,
                   put_branch = Some branch\<rparr>])"
    using wf written by (simp add: commitFile_def fetch_def fixed)
  show ?thesis
    unfolding commit_step_def
    using path content
    by (simp add: read sha saved wording)
qed


lemma apply_changes_Cons:
  "apply_changes w r branch msg st (c # cs) =
     apply_changes w r branch msg (commit_step w r branch msg st c) cs"
  by (simp add: apply_changes_def)

lemma getFileContent_effects:
  "snd (getFileContent w tr r p) = tr \<or> snd (getFileContent w tr r p) = tr @ [Get r (Contents p None)]"
  by (cases "well_formed p") (simp_all add: getFileContent_trace getFileContent_malformed)

lemma commitFile_effects:
  "(\<exists>m. commitFile w tr r p content sha msg branch = (Inl m, tr))
   \<or> (\<exists>b. snd (commitFile w tr r p content sha msg branch) = tr @ [Put r p b]
         \<and> (case respond w tr (Put r p b) of
               Rejected m \<Rightarrow> fst (commitFile w tr r p content sha msg branch) = Inl m
             | Answered res \<Rightarrow>
                 if ok res then fst (commitFile w tr r p content sha msg branch) = Inr (body res)
                 else \<exists>m. fst (commitFile w tr r p content sha msg branch) = Inl m))"
  by (auto simp: commitFile_def fetch_def split: outcome.splits)



lemma reply_of_accepted:
  assumes "changes parsed = Some cs" and "cs \<noteq> []" and "safety_check cs = None"
    and "s = apply_changes w r branch (or_else (p_commit_message parsed) (js ''update via JTC COD''))
               \<lparr>cs_trace = tr, lastCommitSha = None, filesChanged = [], errors = []\<rparr> cs"
  shows "review_and_commit w tr r branch parsed =
     (Reply \<lparr>response =
         (if filesChanged s \<noteq> [] then
            or_else (explanation parsed)
              (js ''Pronto, modifica'' @ [0xE7, 0xF5] @ js ''es aplicadas!'')
            @ [0x0A, 0x0A, 0x2705] @ js '' Arquivos atualizados: ''
            @ join (js '', '') (filesChanged s)
            @ (if truthy (lastCommitSha s) then
                 [0x0A, 0xD83D, 0xDD17] @ js '' Commit: '' @ [0x60]
                 @ take 7 (or_else (lastCommitSha s) []) @ [0x60]
               else [])
            @ (if errors s \<noteq> [] then
                 [0x0A, 0x0A, 0x26A0, 0xFE0F] @ js '' Alguns arquivos falharam:'' @ [0x0A]
                 @ join [0x0A] (map (\<lambda>e. [0x2022] @ js '' '' @ e) (errors s))
               else [])
          else if errors s \<noteq> [] then
            [0x274C] @ js '' N'' @ [0xE3] @ js ''o consegui fazer as modifica''
            @ [0xE7, 0xF5] @ js ''es.'' @ [0x0A, 0x0A]
            @ join [0x0A] (map (\<lambda>e. [0x2022] @ js '' '' @ e) (errors s))
            @ [0x0A, 0x0A] @ js ''Verifica se o token tem a permiss'' @ [0xE3]
            @ js ''o '' @ [0x22] @ js ''repo'' @ [0x22] @ js '' habilitada.''
          else js ''Algo deu errado, n'' @ [0xE3] @ js ''o consegui processar. Tenta de novo?''),
        files_changed = filesChanged s,
        commit_sha = lastCommitSha s,
        commit_message = p_commit_message parsed\<rparr>,
      cs_trace s)"
  using assms(1,2,3) unfolding assms(4)
  by (simp add: review_and_commit_def build_response_def Let_def)








lemma commit_step_records:
  "\<exists>ext. cs_trace (commit_step w r branch msg st c) = cs_trace st @ ext
     \<and> filesChanged (commit_step w r branch msg st c)
         = filesChanged st @ map fst (answered_puts w (cs_trace st) ext)
     \<and> lastCommitSha (commit_step w r branch msg st c)
         = (if answered_puts w (cs_trace st) ext = [] then lastCommitSha st
            else or_null (case body (snd (last (answered_puts w (cs_trace st) ext))) of
                            PutBody s \<Rightarrow> s | _ \<Rightarrow> None))"
proof (cases "\<not> truthy (ch_path c) \<or> \<not> truthy (ch_content c)")
  case True
  then have "commit_step w r branch msg st c = st" by (simp add: commit_step_def)
  then show ?thesis by (intro exI[of _ "[]"]) simp
next
  case False
  let ?p = "or_else (ch_path c) []"
  obtain res tr1 where read: "getFileContent w (cs_trace st) r ?p = (res, tr1)"
    by (cases "getFileContent w (cs_trace st) r ?p") auto
  then obtain m1 where tr1: "tr1 = cs_trace st @ m1"
    and quiet: "answered_puts w (cs_trace st) m1 = []"
    using getFileContent_effects[of w "cs_trace st" r ?p] by auto
  show ?thesis
  proof (cases res)
    case (Inl errMsg)
    then have "commit_step w r branch msg st c =
        st\<lparr>cs_trace := tr1, errors := errors st @ [?p @ js '': '' @ errMsg]\<rparr>"
      using False read by (simp add: commit_step_def)
    then show ?thesis using tr1 quiet by (intro exI[of _ m1]) simp
  next
    case (Inr freshFile)
    let ?sha = "case freshFile of None \<Rightarrow> None | Some f \<Rightarrow> or_null (lf_sha f)"
    let ?save = "commitFile w tr1 r ?p (or_else (ch_content c) []) ?sha msg branch"
    obtain res2 tr2 where saved: "?save = (res2, tr2)"
      by (cases ?save) auto
    have step: "commit_step w r branch msg st c =
        (case res2 of
           Inl errMsg \<Rightarrow> st\<lparr>cs_trace := tr2, errors := errors st @ [?p @ js '': '' @ errMsg]\<rparr>
         | Inr result \<Rightarrow>
             st\<lparr>cs_trace := tr2,
                lastCommitSha := or_null (case result of PutBody s \<Rightarrow> s | _ \<Rightarrow> None),
                filesChanged := filesChanged st @ [?p]\<rparr>)"
      using False read Inr saved by (simp add: commit_step_def)
    from commitFile_effects[of w tr1 r ?p "or_else (ch_content c) []" ?sha msg branch,
        unfolded saved fst_conv snd_conv prod.inject]
    consider (unsent) m where "res2 = Inl m" "tr2 = tr1"
      | (sent) b where "tr2 = tr1 @ [Put r ?p b]"
          "case respond w tr1 (Put r ?p b) of
               Rejected m \<Rightarrow> res2 = Inl m
             | Answered res \<Rightarrow> if ok res then res2 = Inr (body res) else \<exists>m. res2 = Inl m"
      by blast
    then show ?thesis
    proof cases
      case unsent
      then show ?thesis using step tr1 quiet by (intro exI[of _ m1]) simp
    next
      case sent
      show ?thesis
      proof (cases "respond w tr1 (Put r ?p b)")
        case (Rejected m)
        then have "res2 = Inl m" using sent(2) by simp
        then show ?thesis
          using step tr1 quiet sent(1) Rejected
          by (intro exI[of _ "m1 @ [Put r ?p b]"]) (simp add: answered_puts_append)
      next
        case (Answered a)
        show ?thesis
        proof (cases "ok a")
          case True
          then have "res2 = Inr (body a)" using sent(2) Answered by simp
          then show ?thesis
            using step tr1 quiet sent(1) Answered True
            by (intro exI[of _ "m1 @ [Put r ?p b]"]) (simp add: answered_puts_append)
        next
          case False
          then obtain m where "res2 = Inl m" using sent(2) Answered by auto
          then show ?thesis
            using step tr1 quiet sent(1) Answered False
            by (intro exI[of _ "m1 @ [Put r ?p b]"]) (simp add: answered_puts_append)
        qed
      qed
    qed
  qed
qed

lemma apply_changes_records:
  "\<exists>ext. cs_trace (apply_changes w r branch msg st cs) = cs_trace st @ ext
     \<and> filesChanged (apply_changes w r branch msg st cs)
         = filesChanged st @ map fst (answered_puts w (cs_trace st) ext)
     \<and> lastCommitSha (apply_changes w r branch msg st cs)
         = (if answered_puts w (cs_trace st) ext = [] then lastCommitSha st
            else or_null (case body (snd (last (answered_puts w (cs_trace st) ext))) of
                            PutBody s \<Rightarrow> s | _ \<Rightarrow> None))"
proof (induction cs arbitrary: st)
  case Nil
  show ?case by (intro exI[of _ "[]"]) (simp add: apply_changes_def)
next
  case (Cons c cs)
  let ?st1 = "commit_step w r branch msg st c"
  obtain e1 where one: "cs_trace ?st1 = cs_trace st @ e1"
      "filesChanged ?st1 = filesChanged st @ map fst (answered_puts w (cs_trace st) e1)"
      "lastCommitSha ?st1 = (if answered_puts w (cs_trace st) e1 = [] then lastCommitSha st
            else or_null (case body (snd (last (answered_puts w (cs_trace st) e1))) of
                            PutBody s \<Rightarrow> s | _ \<Rightarrow> None))"
    using commit_step_records[of w r branch msg st c] by blast
  obtain e2 where two: "cs_trace (apply_changes w r branch msg ?st1 cs) = cs_trace ?st1 @ e2"
      "filesChanged (apply_changes w r branch msg ?st1 cs)
         = filesChanged ?st1 @ map fst (answered_puts w (cs_trace ?st1) e2)"
      "lastCommitSha (apply_changes w r branch msg ?st1 cs)
         = (if answered_puts w (cs_trace ?st1) e2 = [] then lastCommitSha ?st1
            else or_null (case body (snd (last (answered_puts w (cs_trace ?st1) e2))) of
                            PutBody s \<Rightarrow> s | _ \<Rightarrow> None))"
    using Cons.IH[of ?st1] by blast
  show ?case
    unfolding apply_changes_Cons
    using one two
    by (intro exI[of _ "e1 @ e2"]) (simp add: answered_puts_append)
qed

text \<open>
  Claim C5. When an accepted change set is applied, the run sends one \<^verbatim>\<open>PUT\<close> for each
  edit it writes, and each \<^verbatim>\<open>PUT\<close> that is answered with a success is a commit of its
  own. In the reply, \<^verbatim>\<open>files_changed\<close> lists the paths of all these writes in
  order, while \<^verbatim>\<open>commit_sha\<close> is the commit identifier in the answer to the last of
  them only (none when no write succeeded, whatever happened to the edits after it).
  The record the client keeps in \<^verbatim>\<open>agent_commits\<close> carries that one identifier
  together with the whole list of changed files.
\<close>

theorem last_commit_only:
  assumes "changes parsed = Some cs" and "cs \<noteq> []" and "safety_check cs = None"
  shows "\<exists>ext wr reply_text.
           snd (review_and_commit w tr r branch parsed) = tr @ ext
         \<and> wr = answered_puts w tr ext
         \<and> fst (review_and_commit w tr r branch parsed) =
             Reply \<lparr>response = reply_text,
                    files_changed = map fst wr,
                    commit_sha =
                      (if wr = [] then None
                       else or_null (case body (snd (last wr)) of PutBody s \<Rightarrow> s | _ \<Rightarrow> None)),
                    commit_message = p_commit_message parsed\<rparr>
         \<and> persisted_commit (fst (review_and_commit w tr r branch parsed)) =
             (case (if wr = [] then None
                    else or_null (case body (snd (last wr)) of PutBody s \<Rightarrow> s | _ \<Rightarrow> None)) of
                None \<Rightarrow> None
              | Some sha \<Rightarrow>
                  Some \<lparr>ac_commit_sha = sha,
                        ac_commit_message =
                          or_else (p_commit_message parsed) (js ''update via JTC COD''),
                        ac_files_changed = map fst wr\<rparr>)"
proof -
  let ?start = "\<lparr>cs_trace = tr, lastCommitSha = None, filesChanged = [], errors = []\<rparr>"
  let ?s = "apply_changes w r branch
              (or_else (p_commit_message parsed) (js ''update via JTC COD'')) ?start cs"
  obtain ext where ext: "cs_trace ?s = tr @ ext"
      "filesChanged ?s = map fst (answered_puts w tr ext)"
      "lastCommitSha ?s = (if answered_puts w tr ext = [] then None
            else or_null (case body (snd (last (answered_puts w tr ext))) of
                            PutBody s \<Rightarrow> s | _ \<Rightarrow> None))"
    using apply_changes_records[of w r branch
        "or_else (p_commit_message parsed) (js ''update via JTC COD'')" ?start cs]
    by auto
  have run: "review_and_commit w tr r branch parsed =
      (Reply \<lparr>response = build_response parsed ?s, files_changed = filesChanged ?s,
              commit_sha = lastCommitSha ?s, commit_message = p_commit_message parsed\<rparr>,
       cs_trace ?s)"
    using assms by (simp add: review_and_commit_def Let_def)
  have kept: "persisted_commit (Reply \<lparr>response = t, files_changed = fs, commit_sha = or_null v,
                                       commit_message = m\<rparr>) =
      (case or_null v of
         None \<Rightarrow> None
       | Some sha \<Rightarrow> Some \<lparr>ac_commit_sha = sha,
                           ac_commit_message = or_else m (js ''update via JTC COD''),
                           ac_files_changed = fs\<rparr>)" for t fs v m
    by (simp add: persisted_commit_def truthy_def or_null_def or_else_def split: option.splits)
  have none: "persisted_commit (Reply \<lparr>response = t, files_changed = fs, commit_sha = None,
                                       commit_message = m\<rparr>) = None" for t fs m
    by (simp add: persisted_commit_def truthy_def)
  show ?thesis
    unfolding run
    by (intro exI[of _ ext] exI[of _ "answered_puts w tr ext"] exI[of _ "build_response parsed ?s"])
       (simp add: ext kept none)
qed


lemma strip_late:
  "strip_code_fences (json_changes late_edits) = json_changes late_edits"
  by (simp add: strip_code_fences_def json_changes_def late_edits_def quoted_def fence_def
      trim_def is_space_def drop_line_feed_def js_def)

lemma read_late:
  "read_changes (project_world intent (json_changes late_edits) chat)
      (chat_answer (json_changes late_edits)) = Inr (parsed_changes late_edits)"
proof -
  have "json_changes late_edits \<noteq> []"
    by (simp add: json_changes_def js_def)
  moreover have "json_changes late_edits \<noteq> json_changes blanking_edits"
    by (simp add: json_changes_def late_edits_def blanking_edits_def quoted_def js_def)
  moreover have "json_changes late_edits \<noteq> json_changes three_edits"
    by (simp add: json_changes_def late_edits_def three_edits_def quoted_def js_def)
  ultimately show ?thesis
    by (simp add: read_changes_def chat_answer_def ok_def chat_content_def or_else_def
        strip_late project_parse demo_changes_def)
qed

text \<open>The three edits of the examples, applied in the project from any state of the loop.\<close>

lemma project_step_A:
  "commit_step (project_world intent answer chat) demo_repo (js ''main'') msg st
     \<lparr>ch_path = Some (js ''src/A.tsx''), ch_action = None,
      ch_content = Some (js ''export const a = 1'')\<rparr> =
   st\<lparr>cs_trace := cs_trace st @
        [Get demo_repo (Contents (js ''src/A.tsx'') None),
         Put demo_repo (js ''src/A.tsx'')
           \<lparr>put_message = msg, put_content = js ''ZXhwb3J0IGNvbnN0IGEgPSAx'',
            put_sha = Some (js ''blob-src/A.tsx''), put_branch = Some (js ''main'')\<rparr>],
      lastCommitSha := Some (js ''commit-src/A.tsx''),
      filesChanged := filesChanged st @ [js ''src/A.tsx'']\<rparr>"
proof -
  let ?w = "project_world intent answer chat"
  let ?fresh = "\<lparr>status = 200,
       body = FileBody \<lparr>fd_encoding = Some (js ''base64''),
                        fd_content = Some (js ''aGVsbG8='' @ [0x0A]),
                        fd_sha = Some (js ''blob-'' @ js ''src/A.tsx''),
                        fd_path = Some (js ''src/A.tsx'')\<rparr>\<rparr>"
  have names: "js ''blob-'' @ js ''src/A.tsx'' = js ''blob-src/A.tsx''"
      "js ''commit-'' @ js ''src/A.tsx'' = js ''commit-src/A.tsx''"
    by (simp_all add: js_def)
  have wf: "well_formed (js ''src/A.tsx'')" "well_formed (js ''export const a = 1'')"
    by (simp_all add: js_def)
  have fresh: "respond ?w (cs_trace st) (Get demo_repo (Contents (js ''src/A.tsx'') None))
      = Answered ?fresh"
    by (simp add: project_read stored_def)
  have readable: "\<forall>d. ok ?fresh \<and> body ?fresh = FileBody d \<and> fd_encoding d = Some (js ''base64'')
             \<longrightarrow> (\<exists>c0 s. fd_content d = Some c0
                    \<and> atob_utf8 ?w (filter (\<lambda>u. u \<noteq> 0x0A) c0) = Inr s)"
    using decode_hello by (auto simp: project_decode)
  have written: "respond ?w (cs_trace st @ [Get demo_repo (Contents (js ''src/A.tsx'') None)])
      (Put demo_repo (js ''src/A.tsx'')
         \<lparr>put_message = msg, put_content = btoa_utf8 ?w (js ''export const a = 1''),
          put_sha = Some (js ''blob-src/A.tsx''), put_branch = Some (js ''main'')\<rparr>)
      = Answered \<lparr>status = 200, body = PutBody (Some (js ''commit-'' @ js ''src/A.tsx''))\<rparr>"
    by (simp add: project_write)
  note step = commit_step_written [of _ "js ''src/A.tsx''" "js ''export const a = 1''" ?w st
      demo_repo ?fresh "Some (js ''blob-src/A.tsx'')" msg "js ''main''"
      "\<lparr>status = 200, body = PutBody (Some (js ''commit-'' @ js ''src/A.tsx''))\<rparr>",
      OF _ _ _ _ wf fresh readable _ written]
  show ?thesis
    by (subst step) (simp_all add: ok_def or_null_def names project_encode demo_encode_def)
qed

lemma project_step_B:
  "commit_step (project_world intent answer chat) demo_repo (js ''main'') msg st
     \<lparr>ch_path = Some (js ''src/B.tsx''), ch_action = None,
      ch_content = Some (js ''export const b = 2'')\<rparr> =
   st\<lparr>cs_trace := cs_trace st @
        [Get demo_repo (Contents (js ''src/B.tsx'') None),
         Put demo_repo (js ''src/B.tsx'')
           \<lparr>put_message = msg, put_content = js ''ZXhwb3J0IGNvbnN0IGIgPSAy'',
            put_sha = Some (js ''blob-src/B.tsx''), put_branch = Some (js ''main'')\<rparr>],
      errors := errors st
        @ [js ''src/B.tsx: Falha ao salvar src/B.tsx no GitHub (status 409)'']\<rparr>"
proof -
  let ?w = "project_world intent answer chat"
  let ?fresh = "\<lparr>status = 200,
       body = FileBody \<lparr>fd_encoding = Some (js ''base64''),
                        fd_content = Some (js ''aGVsbG8='' @ [0x0A]),
                        fd_sha = Some (js ''blob-'' @ js ''src/B.tsx''),
                        fd_path = Some (js ''src/B.tsx'')\<rparr>\<rparr>"
  have names: "js ''blob-'' @ js ''src/B.tsx'' = js ''blob-src/B.tsx''"
      "js ''src/B.tsx'' @ js '': Falha ao salvar '' @ js ''src/B.tsx''
         @ js '' no GitHub (status '' @ show_nat 409 @ js '')''
       = js ''src/B.tsx: Falha ao salvar src/B.tsx no GitHub (status 409)''"
    by (simp_all add: js_def show_nat.simps)
  have wf: "well_formed (js ''src/B.tsx'')" "well_formed (js ''export const b = 2'')"
    by (simp_all add: js_def)
  have fresh: "respond ?w (cs_trace st) (Get demo_repo (Contents (js ''src/B.tsx'') None))
      = Answered ?fresh"
    by (simp add: project_read stored_def)
  have readable: "\<forall>d. ok ?fresh \<and> body ?fresh = FileBody d \<and> fd_encoding d = Some (js ''base64'')
             \<longrightarrow> (\<exists>c0 s. fd_content d = Some c0
                    \<and> atob_utf8 ?w (filter (\<lambda>u. u \<noteq> 0x0A) c0) = Inr s)"
    using decode_hello by (auto simp: project_decode)
  have written: "respond ?w (cs_trace st @ [Get demo_repo (Contents (js ''src/B.tsx'') None)])
      (Put demo_repo (js ''src/B.tsx'')
         \<lparr>put_message = msg, put_content = btoa_utf8 ?w (js ''export const b = 2''),
          put_sha = Some (js ''blob-src/B.tsx''), put_branch = Some (js ''main'')\<rparr>)
      = Answered \<lparr>status = 409, body = OtherBody\<rparr>"
    by (simp add: project_write)
  note step = commit_step_written [of _ "js ''src/B.tsx''" "js ''export const b = 2''" ?w st
      demo_repo ?fresh "Some (js ''blob-src/B.tsx'')" msg "js ''main''"
      "\<lparr>status = 409, body = OtherBody\<rparr>",
      OF _ _ _ _ wf fresh readable _ written]
  show ?thesis
    by (subst step) (simp_all add: ok_def or_null_def names project_encode demo_encode_def)
qed

lemma project_step_C:
  "commit_step (project_world intent answer chat) demo_repo (js ''main'') msg st
     \<lparr>ch_path = Some (js ''src/C.tsx''), ch_action = None,
      ch_content = Some (js ''export const c = 3'')\<rparr> =
   st\<lparr>cs_trace := cs_trace st @
        [Get demo_repo (Contents (js ''src/C.tsx'') None),
         Put demo_repo (js ''src/C.tsx'')
           \<lparr>put_message = msg, put_content = js ''ZXhwb3J0IGNvbnN0IGMgPSAz'',
            put_sha = None, put_branch = Some (js ''main'')\<rparr>],
      lastCommitSha := Some (js ''commit-src/C.tsx''),
      filesChanged := filesChanged st @ [js ''src/C.tsx'']\<rparr>"
proof -
  let ?w = "project_world intent answer chat"
  let ?fresh = "\<lparr>status = 404, body = OtherBody\<rparr>"
  have names: "js ''commit-'' @ js ''src/C.tsx'' = js ''commit-src/C.tsx''"
    by (simp_all add: js_def)
  have wf: "well_formed (js ''src/C.tsx'')" "well_formed (js ''export const c = 3'')"
    by (simp_all add: js_def)
  have fresh: "respond ?w (cs_trace st) (Get demo_repo (Contents (js ''src/C.tsx'') None))
      = Answered ?fresh"
    by (simp add: project_read not_found_def)
  have readable: "\<forall>d. ok ?fresh \<and> body ?fresh = FileBody d \<and> fd_encoding d = Some (js ''base64'')
             \<longrightarrow> (\<exists>c0 s. fd_content d = Some c0
                    \<and> atob_utf8 ?w (filter (\<lambda>u. u \<noteq> 0x0A) c0) = Inr s)"
    by simp
  have written: "respond ?w (cs_trace st @ [Get demo_repo (Contents (js ''src/C.tsx'') None)])
      (Put demo_repo (js ''src/C.tsx'')
         \<lparr>put_message = msg, put_content = btoa_utf8 ?w (js ''export const c = 3''),
          put_sha = None, put_branch = Some (js ''main'')\<rparr>)
      = Answered \<lparr>status = 200, body = PutBody (Some (js ''commit-'' @ js ''src/C.tsx''))\<rparr>"
    by (simp add: project_write)
  note step = commit_step_written [of _ "js ''src/C.tsx''" "js ''export const c = 3''" ?w st
      demo_repo ?fresh None msg "js ''main''"
      "\<lparr>status = 200, body = PutBody (Some (js ''commit-'' @ js ''src/C.tsx''))\<rparr>",
      OF _ _ _ _ wf fresh readable _ written]
  show ?thesis
    by (subst step) (simp_all add: ok_def or_null_def names project_encode demo_encode_def)
qed

theorem last_commit_only_witness:
  "code_agent (project_world (js ''Code'' @ [0x0A]) (json_changes late_edits) not_found)
       edit_request =
     (Reply \<lparr>response =
         js ''Feito.'' @ [0x0A, 0x0A, 0x2705]
         @ js '' Arquivos atualizados: src/A.tsx, src/C.tsx''
         @ [0x0A, 0xD83D, 0xDD17] @ js '' Commit: '' @ [0x60] @ js ''commit-'' @ [0x60]
         @ [0x0A, 0x0A, 0x26A0, 0xFE0F] @ js '' Alguns arquivos falharam:'' @ [0x0A, 0x2022]
         @ js '' src/B.tsx: Falha ao salvar src/B.tsx no GitHub (status 409)'',
        files_changed = [js ''src/A.tsx'', js ''src/C.tsx''],
        commit_sha = Some (js ''commit-src/C.tsx''),
        commit_message = None\<rparr>,
      project_reads @
      [Get demo_repo (Contents (js ''src/A.tsx'') None),
       Put demo_repo (js ''src/A.tsx'')
         \<lparr>put_message = js ''update via JTC COD'', put_content = js ''ZXhwb3J0IGNvbnN0IGEgPSAx'',
          put_sha = Some (js ''blob-src/A.tsx''), put_branch = Some (js ''main'')\<rparr>,
       Get demo_repo (Contents (js ''src/C.tsx'') None),
       Put demo_repo (js ''src/C.tsx'')
         \<lparr>put_message = js ''update via JTC COD'', put_content = js ''ZXhwb3J0IGNvbnN0IGMgPSAz'',
          put_sha = None, put_branch = Some (js ''main'')\<rparr>,
       Get demo_repo (Contents (js ''src/B.tsx'') None),
       Put demo_repo (js ''src/B.tsx'')
         \<lparr>put_message = js ''update via JTC COD'', put_content = js ''ZXhwb3J0IGNvbnN0IGIgPSAy'',
          put_sha = Some (js ''blob-src/B.tsx''), put_branch = Some (js ''main'')\<rparr>])
   \<and> persisted_commit
        (fst (code_agent (project_world (js ''Code'' @ [0x0A]) (json_changes late_edits) not_found)
                edit_request)) =
       Some \<lparr>ac_commit_sha = js ''commit-src/C.tsx'',
             ac_commit_message = js ''update via JTC COD'',
             ac_files_changed = [js ''src/A.tsx'', js ''src/C.tsx'']\<rparr>"
proof -
  let ?w = "project_world (js ''Code'' @ [0x0A]) (json_changes late_edits) not_found"
  let ?msg = "js ''update via JTC COD''"
  let ?effects = "[Get demo_repo (Contents (js ''src/A.tsx'') None),
       Put demo_repo (js ''src/A.tsx'')
         \<lparr>put_message = ?msg, put_content = js ''ZXhwb3J0IGNvbnN0IGEgPSAx'',
          put_sha = Some (js ''blob-src/A.tsx''), put_branch = Some (js ''main'')\<rparr>,
       Get demo_repo (Contents (js ''src/C.tsx'') None),
       Put demo_repo (js ''src/C.tsx'')
         \<lparr>put_message = ?msg, put_content = js ''ZXhwb3J0IGNvbnN0IGMgPSAz'',
          put_sha = None, put_branch = Some (js ''main'')\<rparr>,
       Get demo_repo (Contents (js ''src/B.tsx'') None),
       Put demo_repo (js ''src/B.tsx'')
         \<lparr>put_message = ?msg, put_content = js ''ZXhwb3J0IGNvbnN0IGIgPSAy'',
          put_sha = Some (js ''blob-src/B.tsx''), put_branch = Some (js ''main'')\<rparr>]"
  let ?run = "review_and_commit ?w project_reads demo_repo (js ''main'') (parsed_changes late_edits)"
  have parsed: "changes (parsed_changes late_edits) =
      Some [\<lparr>ch_path = Some (js ''src/A.tsx''), ch_action = None,
              ch_content = Some (js ''export const a = 1'')\<rparr>,
            \<lparr>ch_path = Some (js ''src/C.tsx''), ch_action = None,
              ch_content = Some (js ''export const c = 3'')\<rparr>,
            \<lparr>ch_path = Some (js ''src/B.tsx''), ch_action = None,
              ch_content = Some (js ''export const b = 2'')\<rparr>]"
    by (simp add: parsed_changes_def late_edits_def)
  have safe: "safety_check [\<lparr>ch_path = Some (js ''src/A.tsx''), ch_action = None,
              ch_content = Some (js ''export const a = 1'')\<rparr>,
            \<lparr>ch_path = Some (js ''src/C.tsx''), ch_action = None,
              ch_content = Some (js ''export const c = 3'')\<rparr>,
            \<lparr>ch_path = Some (js ''src/B.tsx''), ch_action = None,
              ch_content = Some (js ''export const b = 2'')\<rparr>] = None"
    by (simp add: criticalFiles_def)
  have message: "or_else (p_commit_message (parsed_changes late_edits)) ?msg = ?msg"
    and explained: "explanation (parsed_changes late_edits) = Some (js ''Feito.'')"
    and unnamed: "p_commit_message (parsed_changes late_edits) = None"
    by (simp_all add: parsed_changes_def or_else_def)
  have applied: "apply_changes ?w demo_repo (js ''main'') ?msg
      \<lparr>cs_trace = project_reads, lastCommitSha = None, filesChanged = [], errors = []\<rparr>
      [\<lparr>ch_path = Some (js ''src/A.tsx''), ch_action = None,
              ch_content = Some (js ''export const a = 1'')\<rparr>,
            \<lparr>ch_path = Some (js ''src/C.tsx''), ch_action = None,
              ch_content = Some (js ''export const c = 3'')\<rparr>,
            \<lparr>ch_path = Some (js ''src/B.tsx''), ch_action = None,
              ch_content = Some (js ''export const b = 2'')\<rparr>] =
      \<lparr>cs_trace = project_reads @ ?effects,
       lastCommitSha = Some (js ''commit-src/C.tsx''),
       filesChanged = [js ''src/A.tsx'', js ''src/C.tsx''],
       errors = [js ''src/B.tsx: Falha ao salvar src/B.tsx no GitHub (status 409)'']\<rparr>"
    by (simp add: apply_changes_def project_step_A project_step_B project_step_C)
  have run: "?run =
     (Reply \<lparr>response =
         js ''Feito.'' @ [0x0A, 0x0A, 0x2705]
         @ js '' Arquivos atualizados: src/A.tsx, src/C.tsx''
         @ [0x0A, 0xD83D, 0xDD17] @ js '' Commit: '' @ [0x60] @ js ''commit-'' @ [0x60]
         @ [0x0A, 0x0A, 0x26A0, 0xFE0F] @ js '' Alguns arquivos falharam:'' @ [0x0A, 0x2022]
         @ js '' src/B.tsx: Falha ao salvar src/B.tsx no GitHub (status 409)'',
        files_changed = [js ''src/A.tsx'', js ''src/C.tsx''],
        commit_sha = Some (js ''commit-src/C.tsx''),
        commit_message = None\<rparr>,
      project_reads @ ?effects)"
    using reply_of_accepted [where w = ?w and r = demo_repo and branch = "js ''main''"
        and tr = project_reads, OF parsed _ safe refl]
    unfolding message applied
    by (simp add: explained unnamed or_else_def truthy_def js_def)
  obtain ext wr reply_text where ext: "snd ?run = project_reads @ ext"
    and wr: "wr = answered_puts ?w project_reads ext"
    and kept: "persisted_commit (fst ?run) =
             (case (if wr = [] then None
                    else or_null (case body (snd (last wr)) of PutBody s \<Rightarrow> s | _ \<Rightarrow> None)) of
                None \<Rightarrow> None
              | Some sha \<Rightarrow>
                  Some \<lparr>ac_commit_sha = sha,
                        ac_commit_message =
                          or_else (p_commit_message (parsed_changes late_edits)) ?msg,
                        ac_files_changed = map fst wr\<rparr>)"
    using last_commit_only [where w = ?w and r = demo_repo and branch = "js ''main''"
        and tr = project_reads, OF parsed _ safe]
    by auto
  have "ext = ?effects"
    using ext run by simp
  then have "wr = [(js ''src/A.tsx'',
                    \<lparr>status = 200, body = PutBody (Some (js ''commit-'' @ js ''src/A.tsx''))\<rparr>),
                   (js ''src/C.tsx'',
                    \<lparr>status = 200, body = PutBody (Some (js ''commit-'' @ js ''src/C.tsx''))\<rparr>)]"
    unfolding wr by (simp add: project_write ok_def)
  then have row: "persisted_commit (fst ?run) =
       Some \<lparr>ac_commit_sha = js ''commit-src/C.tsx'',
             ac_commit_message = js ''update via JTC COD'',
             ac_files_changed = [js ''src/A.tsx'', js ''src/C.tsx'']\<rparr>"
    unfolding kept by (simp add: or_null_def unnamed or_else_def js_def)
  have posted: "req_method edit_request \<noteq> js ''OPTIONS''"
    and repo: "req_repo edit_request = demo_repo"
    by (simp_all add: edit_request_def)
  have agent: "code_agent ?w edit_request = ?run"
    unfolding code_agent_def
    using posted by (simp add: project_plan read_late repo)
  show ?thesis
    unfolding agent using run row by simp
qed

section \<open>Undo of a commit with a parent\<close>

text \<open>
  A repository in which the commit \<^verbatim>\<open>c0ffee\<close> has the parent \<^verbatim>\<open>p4rent\<close>, changed
  \<^verbatim>\<open>a.txt\<close> and removed \<^verbatim>\<open>old.txt\<close>. Both files read \<^verbatim>\<open>old\<close> at the parent;
  \<^verbatim>\<open>old.txt\<close> does not exist any more. Every write is answered with the status
  \<open>code\<close>.
\<close>

definition history_world :: "nat \<Rightarrow> world" where
  "history_world code =
     \<lparr>respond = (\<lambda>tr e. case e of
          Get r (Commit s) \<Rightarrow>
            Answered \<lparr>status = 200,
              body = CommitBody \<lparr>cd_parents = [Some (js ''p4rent'')],
                cd_files = [\<lparr>cf_filename = js ''a.txt'', cf_status = js ''modified''\<rparr>,
                            \<lparr>cf_filename = js ''old.txt'', cf_status = js ''removed''\<rparr>]\<rparr>\<rparr>
        | Get r (Contents p (Some v)) \<Rightarrow> stored p (js ''b2xk'' @ [0x0A]) (js ''old-'' @ p)
        | Get r (Contents p None) \<Rightarrow>
            if p = js ''a.txt'' then stored p (js ''bmV3'' @ [0x0A]) (js ''new-'' @ p)
            else not_found
        | Put r p b \<Rightarrow> Answered \<lparr>status = code, body = OtherBody\<rparr>
        | Delete r p b \<Rightarrow> Answered \<lparr>status = code, body = OtherBody\<rparr>
        | _ \<Rightarrow> not_found),
      arrival = (\<lambda>tr e. length tr),
      lovable_api_key = None, toLowerCase = ascii_lower,
      atob_utf8 = demo_decode, btoa_utf8 = demo_encode,
      parse_paths = (\<lambda>s. None), parse_changes = (\<lambda>s. None)\<rparr>"

text \<open>
  Claim C3 says that every file the commit touched is restored, also one the commit
  removed, and that each restored path is reported. The handler does not do so. In the
  run below it reads the parent's version of \<^verbatim>\<open>old.txt\<close>, then asks for the current
  version, which does not exist (status 404), and skips the file (line 75): the file is
  neither written back nor reported, and the reply is still a success. This is against
  the comment at line 31, \<^verbatim>\<open>For each file changed in the commit, restore from parent\<close>.
  When the writes are refused (status 409) the trace and the reply are the same: the
  answers to the \<^verbatim>\<open>PUT\<close> and \<^verbatim>\<open>DELETE\<close> requests are not read (lines 44-59 and
  77-93), so \<^verbatim>\<open>a.txt\<close> is reported as reverted although nothing was written.
\<close>

theorem removed_file_not_restored:
  "undo_commit (history_world 200) root_request =
     (Reverted [js ''a.txt''],
      [Get demo_repo (Commit (js ''c0ffee'')),
       Get demo_repo (Contents (js ''a.txt'') (Some (js ''p4rent''))),
       Get demo_repo (Contents (js ''a.txt'') None),
       Put demo_repo (js ''a.txt'')
         \<lparr>put_message = js ''revert: undo changes to a.txt'', put_content = js ''b2xk'',
          put_sha = Some (js ''new-a.txt''), put_branch = None\<rparr>,
       Get demo_repo (Contents (js ''old.txt'') (Some (js ''p4rent''))),
       Get demo_repo (Contents (js ''old.txt'') None)])
   \<and> respond (history_world 200) [Get demo_repo (Commit (js ''c0ffee''))]
         (Get demo_repo (Contents (js ''old.txt'') (Some (js ''p4rent'')))) =
       Answered \<lparr>status = 200,
         body = FileBody \<lparr>fd_encoding = Some (js ''base64''), fd_content = Some (js ''b2xk'' @ [0x0A]),
                          fd_sha = Some (js ''old-old.txt''), fd_path = Some (js ''old.txt'')\<rparr>\<rparr>
   \<and> undo_commit (history_world 409) root_request =
     (Reverted [js ''a.txt''],
      [Get demo_repo (Commit (js ''c0ffee'')),
       Get demo_repo (Contents (js ''a.txt'') (Some (js ''p4rent''))),
       Get demo_repo (Contents (js ''a.txt'') None),
       Put demo_repo (js ''a.txt'')
         \<lparr>put_message = js ''revert: undo changes to a.txt'', put_content = js ''b2xk'',
          put_sha = Some (js ''new-a.txt''), put_branch = None\<rparr>,
       Get demo_repo (Contents (js ''old.txt'') (Some (js ''p4rent''))),
       Get demo_repo (Contents (js ''old.txt'') None)])"
proof -
  have names: "js ''new-'' @ js ''a.txt'' = js ''new-a.txt''"
      "js ''old-'' @ js ''old.txt'' = js ''old-old.txt''"
      "js ''revert: undo changes to '' @ js ''a.txt'' = js ''revert: undo changes to a.txt''"
      "filter (\<lambda>u. u \<noteq> 0x0A) (js ''b2xk'') = js ''b2xk''"
    by (simp_all add: js_def)
  have answers: "\<And>code tr r s. respond (history_world code) tr (Get r (Commit s)) =
      Answered \<lparr>status = 200,
              body = CommitBody \<lparr>cd_parents = [Some (js ''p4rent'')],
                cd_files = [\<lparr>cf_filename = js ''a.txt'', cf_status = js ''modified''\<rparr>,
                            \<lparr>cf_filename = js ''old.txt'', cf_status = js ''removed''\<rparr>]\<rparr>\<rparr>"
      "\<And>code tr r p v. respond (history_world code) tr (Get r (Contents p (Some v)))
         = stored p (js ''b2xk'' @ [0x0A]) (js ''old-'' @ p)"
      "\<And>code tr r p. respond (history_world code) tr (Get r (Contents p None)) =
         (if p = js ''a.txt'' then stored p (js ''bmV3'' @ [0x0A]) (js ''new-'' @ p)
          else not_found)"
      "\<And>code tr r p b. respond (history_world code) tr (Put r p b)
         = Answered \<lparr>status = code, body = OtherBody\<rparr>"
    by (simp_all add: history_world_def)
  have run: "undo_commit (history_world code) root_request =
     (Reverted [js ''a.txt''],
      [Get demo_repo (Commit (js ''c0ffee'')),
       Get demo_repo (Contents (js ''a.txt'') (Some (js ''p4rent''))),
       Get demo_repo (Contents (js ''a.txt'') None),
       Put demo_repo (js ''a.txt'')
         \<lparr>put_message = js ''revert: undo changes to a.txt'', put_content = js ''b2xk'',
          put_sha = Some (js ''new-a.txt''), put_branch = None\<rparr>,
       Get demo_repo (Contents (js ''old.txt'') (Some (js ''p4rent''))),
       Get demo_repo (Contents (js ''old.txt'') None)])" for code
    unfolding undo_commit_def
    by (simp add: root_request_def demo_repo_def fetch_def answers ok_def truthy_def
        parent_sha_def or_else_def commit_files_def revert_file_def stored_def not_found_def
        content_field_def sha_field_def names Let_def)
  show ?thesis
    using run [of 200] run [of 409] by (simp add: answers stored_def names)
qed

end
